theory Spec2Isabelle
  imports Complex_Main
begin

section \<open>SnoopyChase: the motion update of \<^verbatim>\<open>snoopy_chase.py\<close>\<close>

text \<open>
  The program moves one sprite towards the mouse pointer, once per timer tick. This theory
  embeds the part of class \<^verbatim>\<open>ChaserApp\<close> that computes the motion: the fields the update
  reads and writes, \<^verbatim>\<open>clamp_to_canvas\<close>, \<^verbatim>\<open>on_mouse_move\<close>, \<^verbatim>\<open>on_resize\<close>,
  \<^verbatim>\<open>pointer_over_sprite\<close> and \<^verbatim>\<open>loop\<close>.

  Numbers. Python's \<^verbatim>\<open>int\<close> is \<^typ>\<open>int\<close>. Python's \<^verbatim>\<open>float\<close> is a double, and the
  arithmetic of the source is given two readings, both over \<^typ>\<open>real\<close>:
  \<^item> exact arithmetic (\<open>clamp_to_canvas\<close>, \<open>desired_v\<close>, \<open>capped_v\<close>, \<open>loop\<close>, ...): every
    operation returns the exact real result and \<^verbatim>\<open>math.hypot\<close> is the Euclidean norm;
  \<^item> double arithmetic (\<open>clamp_to_canvas_fl\<close>, \<open>desired_v_fl\<close>, \<open>capped_v_fl\<close>,
    \<open>loop_fl\<close>, ...): every operation returns the exact result rounded by \<open>fl\<close>, the
    rounding to the nearest number with a 53 bit significand, ties to even.
  Comparisons, \<^verbatim>\<open>min\<close> and \<^verbatim>\<open>max\<close> are exact in both. Where the source mixes \<^verbatim>\<open>int\<close> and
  \<^verbatim>\<open>float\<close> (\<^verbatim>\<open>self.sprite_w / 2\<close>, \<^verbatim>\<open>w - half_w\<close>, \<^verbatim>\<open>tx - x\<close>) the integer is converted, as
  Python does. The double reading leaves the exponent unbounded (no overflow, underflow or
  subnormal numbers, no infinities, no NaN) and takes \<^verbatim>\<open>math.hypot\<close> as correctly rounded.

  The Tk canvas. The source keeps the sprite's centre inside the canvas widget and reads it
  back with \<^verbatim>\<open>canvas.coords(self.sprite)\<close>; the widget's size comes from
  \<^verbatim>\<open>canvas.winfo_width()\<close> and \<^verbatim>\<open>canvas.winfo_height()\<close>, and its cursor is set with
  \<^verbatim>\<open>canvas.config(cursor=...)\<close>. These are fields of the state record below.
\<close>

subsection \<open>Configuration constants (lines 34--41)\<close>

definition WINDOW_SIZE :: "int \<times> int" where
  "WINDOW_SIZE = (900, 600)"

definition TARGET_EASING :: real where
  "TARGET_EASING = 15 / 100"

definition MAX_SPEED :: int where
  "MAX_SPEED = 18"

definition FPS :: int where
  "FPS = 60"

definition CURSOR_NORMAL :: string where
  "CURSOR_NORMAL = ''arrow''"

definition POINTER_PADDING :: int where
  "POINTER_PADDING = 2"

subsection \<open>State\<close>

text \<open>
  \<^item> \<open>sprite_xy\<close>: the centre of the canvas image item, \<^verbatim>\<open>canvas.coords(self.sprite)\<close>;
  \<^item> \<open>sprite_exists\<close>: whether \<^verbatim>\<open>canvas.find_withtag(self.sprite)\<close> is non-empty;
  \<^item> \<open>sprite_w\<close>, \<open>sprite_h\<close>: \<^verbatim>\<open>self.sprite_w\<close>, \<^verbatim>\<open>self.sprite_h\<close>, the pixel size of the image;
  \<^item> \<open>winfo_width\<close>, \<open>winfo_height\<close>: what the canvas widget reports as its size;
  \<^item> \<open>target\<close>: \<^verbatim>\<open>self.target\<close>, the last mouse position;
  \<^item> \<open>vel\<close>: \<^verbatim>\<open>self.vel\<close>, set to \<^verbatim>\<open>[0.0, 0.0]\<close> by the constructor;
  \<^item> \<open>canvas_cursor\<close>: the cursor option of the canvas widget;
  \<^item> \<open>cursor_hidden\<close>: \<^verbatim>\<open>self._cursor_hidden\<close>;
  \<^item> \<open>running\<close>: \<^verbatim>\<open>self._running\<close>.
\<close>

record chaser_app =
  sprite_xy :: "real \<times> real"
  sprite_exists :: bool
  sprite_w :: int
  sprite_h :: int
  winfo_width :: int
  winfo_height :: int
  target :: "int \<times> int"
  vel :: "real \<times> real"
  canvas_cursor :: string
  cursor_hidden :: bool
  running :: bool

datatype error = ValueError

subsection \<open>Operations\<close>

text \<open>\<^verbatim>\<open>math.hypot(a, b)\<close>.\<close>

definition hypot :: "real \<Rightarrow> real \<Rightarrow> real" where
  "hypot a b = sqrt (a\<^sup>2 + b\<^sup>2)"

text \<open>
  The constructor, lines 123--140, for an image that loaded: the state in which
  \<^verbatim>\<open>__init__\<close> makes the first call of \<^verbatim>\<open>self.loop()\<close>. The image size \<open>iw\<close>, \<open>ih\<close>
  and the size \<open>cw\<close>, \<open>ch\<close> that the canvas widget reports come from outside.
\<close>

definition chaser_init :: "int \<Rightarrow> int \<Rightarrow> int \<Rightarrow> int \<Rightarrow> chaser_app" where
  "chaser_init iw ih cw ch =
     \<lparr> sprite_xy = (real_of_int (fst WINDOW_SIZE div 2), real_of_int (snd WINDOW_SIZE div 2)),
       sprite_exists = True,
       sprite_w = iw,
       sprite_h = ih,
       winfo_width = cw,
       winfo_height = ch,
       target = (fst WINDOW_SIZE div 2, snd WINDOW_SIZE div 2),
       vel = (0, 0),
       canvas_cursor = CURSOR_NORMAL,
       cursor_hidden = False,
       running = True \<rparr>"

text \<open>\<^verbatim>\<open>clamp_to_canvas\<close>, lines 164--170.\<close>

definition clamp_to_canvas :: "chaser_app \<Rightarrow> real \<Rightarrow> real \<Rightarrow> real \<times> real" where
  "clamp_to_canvas self x y =
     (let half_w = real_of_int (sprite_w self) / 2;
          half_h = real_of_int (sprite_h self) / 2;
          w = winfo_width self;
          h = winfo_height self;
          nx = min (max x half_w) (max half_w (real_of_int w - half_w));
          ny = min (max y half_h) (max half_h (real_of_int h - half_h))
      in (nx, ny))"

text \<open>\<^verbatim>\<open>on_mouse_move\<close>, lines 173--174; \<open>ex\<close>, \<open>ey\<close> are \<^verbatim>\<open>event.x\<close>, \<^verbatim>\<open>event.y\<close>.\<close>

definition on_mouse_move :: "chaser_app \<Rightarrow> int \<Rightarrow> int \<Rightarrow> chaser_app" where
  "on_mouse_move self ex ey = self\<lparr>target := (ex, ey)\<rparr>"

text \<open>
  \<^verbatim>\<open>on_resize\<close>, lines 177--181. The handler ignores its event and reads the size from
  the widget. \<^verbatim>\<open>canvas.coords\<close> of an item that does not exist is the empty list, and
  unpacking it into \<^verbatim>\<open>x, y\<close> raises \<^verbatim>\<open>ValueError\<close>.
\<close>

definition on_resize :: "chaser_app \<Rightarrow> error + chaser_app" where
  "on_resize self =
     (if \<not> sprite_exists self then Inl ValueError
      else
        let (x, y) = sprite_xy self;
            (nx, ny) = clamp_to_canvas self x y
        in if (nx, ny) \<noteq> (x, y) then Inr (self\<lparr>sprite_xy := (nx, ny)\<rparr>) else Inr self)"

text \<open>\<^verbatim>\<open>pointer_over_sprite\<close>, lines 184--195.\<close>

definition pointer_over_sprite :: "chaser_app \<Rightarrow> bool" where
  "pointer_over_sprite self =
     (if \<not> sprite_exists self then False
      else
        let (sx, sy) = sprite_xy self;
            half_w = real_of_int (sprite_w self) / 2;
            half_h = real_of_int (sprite_h self) / 2;
            x0 = sx - half_w - real_of_int POINTER_PADDING;
            y0 = sy - half_h - real_of_int POINTER_PADDING;
            x1 = sx + half_w + real_of_int POINTER_PADDING;
            y1 = sy + half_h + real_of_int POINTER_PADDING;
            (mx, my) = target self
        in (x0 \<le> real_of_int mx \<and> real_of_int mx \<le> x1)
           \<and> (y0 \<le> real_of_int my \<and> real_of_int my \<le> y1))"

text \<open>
  Lines 201--212 of \<^verbatim>\<open>loop\<close>: the local variables \<^verbatim>\<open>desired_vx\<close>, \<^verbatim>\<open>desired_vy\<close> before the
  speed cap (\<open>desired_v\<close>) and after it (\<open>capped_v\<close>).
\<close>

definition desired_v :: "chaser_app \<Rightarrow> real \<times> real" where
  "desired_v self =
     (let (x, y) = sprite_xy self;
          (tx, ty) = target self;
          dx = real_of_int tx - x;
          dy = real_of_int ty - y;
          desired_vx = dx * TARGET_EASING;
          desired_vy = dy * TARGET_EASING
      in (desired_vx, desired_vy))"

definition capped_v :: "chaser_app \<Rightarrow> real \<times> real" where
  "capped_v self =
     (let (desired_vx, desired_vy) = desired_v self;
          speed = hypot desired_vx desired_vy
      in if speed > real_of_int MAX_SPEED then
           let s = real_of_int MAX_SPEED / max speed (1 / 10 ^ 6)
           in (desired_vx * s, desired_vy * s)
         else (desired_vx, desired_vy))"

text \<open>
  \<^verbatim>\<open>loop\<close>, lines 197--226: one firing of the timer. The last line re-arms the timer
  (\<^verbatim>\<open>root.after(int(1000 / FPS), self.loop)\<close>); the next firing is the next application of
  \<open>loop\<close>, see \<open>run_loop\<close>.
\<close>

definition loop :: "chaser_app \<Rightarrow> chaser_app" where
  "loop self =
     (if \<not> running self \<or> \<not> sprite_exists self then self
      else
        let (x, y) = sprite_xy self;
            (desired_vx, desired_vy) = capped_v self;
            (nx, ny) = clamp_to_canvas self (x + desired_vx) (y + desired_vy);
            self = self\<lparr>sprite_xy := (nx, ny)\<rparr>
        in if pointer_over_sprite self then
             (if \<not> cursor_hidden self
              then self\<lparr>canvas_cursor := ''none'', cursor_hidden := True\<rparr>
              else self)
           else
             (if cursor_hidden self
              then self\<lparr>canvas_cursor := CURSOR_NORMAL, cursor_hidden := False\<rparr>
              else self))"


subsection \<open>Double arithmetic\<close>

text \<open>
  \<open>rne\<close> rounds a real to the nearest integer, a tie to the even one. \<open>fl\<close> rounds a real
  to the nearest double: a non-zero \<open>x\<close> with \<open>2 ^ e \<le> \<bar>x\<bar>\<close> and \<open>\<bar>x\<bar> < 2 ^ (e + 1)\<close> is rounded to the nearest
  multiple of \<open>2 ^ (e - 52)\<close>.
\<close>

definition rne :: "real \<Rightarrow> int" where
  "rne x =
     (let n = \<lfloor>x\<rfloor>;
          r = x - of_int n
      in if r < 1 / 2 then n
         else if 1 / 2 < r then n + 1
         else if even n then n else n + 1)"

definition fl :: "real \<Rightarrow> real" where
  "fl x =
     (if x = 0 then 0
      else
        let q = 2 powr (of_int \<lfloor>log 2 \<bar>x\<bar>\<rfloor> - 52)
        in of_int (rne (x / q)) * q)"

text \<open>
  \<^verbatim>\<open>math.hypot(a, b)\<close> and the literal \<^verbatim>\<open>0.15\<close> of \<^verbatim>\<open>TARGET_EASING\<close> as doubles.
\<close>

definition hypot_fl :: "real \<Rightarrow> real \<Rightarrow> real" where
  "hypot_fl a b = fl (hypot a b)"

definition TARGET_EASING_fl :: real where
  "TARGET_EASING_fl = fl TARGET_EASING"

text \<open>
  \<^verbatim>\<open>clamp_to_canvas\<close>, lines 164--170, in double arithmetic. \<^verbatim>\<open>self.sprite_w / 2\<close> divides
  two integers and is the rounded quotient; in \<^verbatim>\<open>w - half_w\<close> the integer \<^verbatim>\<open>w\<close> is converted
  first.
\<close>

definition clamp_to_canvas_fl :: "chaser_app \<Rightarrow> real \<Rightarrow> real \<Rightarrow> real \<times> real" where
  "clamp_to_canvas_fl self x y =
     (let half_w = fl (real_of_int (sprite_w self) / 2);
          half_h = fl (real_of_int (sprite_h self) / 2);
          w = winfo_width self;
          h = winfo_height self;
          nx = min (max x half_w) (max half_w (fl (fl (real_of_int w) - half_w)));
          ny = min (max y half_h) (max half_h (fl (fl (real_of_int h) - half_h)))
      in (nx, ny))"

text \<open>\<^verbatim>\<open>pointer_over_sprite\<close>, lines 184--195, in double arithmetic.\<close>

definition pointer_over_sprite_fl :: "chaser_app \<Rightarrow> bool" where
  "pointer_over_sprite_fl self =
     (if \<not> sprite_exists self then False
      else
        let (sx, sy) = sprite_xy self;
            half_w = fl (real_of_int (sprite_w self) / 2);
            half_h = fl (real_of_int (sprite_h self) / 2);
            x0 = fl (fl (sx - half_w) - fl (real_of_int POINTER_PADDING));
            y0 = fl (fl (sy - half_h) - fl (real_of_int POINTER_PADDING));
            x1 = fl (fl (sx + half_w) + fl (real_of_int POINTER_PADDING));
            y1 = fl (fl (sy + half_h) + fl (real_of_int POINTER_PADDING));
            (mx, my) = target self
        in (x0 \<le> real_of_int mx \<and> real_of_int mx \<le> x1)
           \<and> (y0 \<le> real_of_int my \<and> real_of_int my \<le> y1))"

text \<open>Lines 201--212 of \<^verbatim>\<open>loop\<close> in double arithmetic.\<close>

definition desired_v_fl :: "chaser_app \<Rightarrow> real \<times> real" where
  "desired_v_fl self =
     (let (x, y) = sprite_xy self;
          (tx, ty) = target self;
          dx = fl (fl (real_of_int tx) - x);
          dy = fl (fl (real_of_int ty) - y);
          desired_vx = fl (dx * TARGET_EASING_fl);
          desired_vy = fl (dy * TARGET_EASING_fl)
      in (desired_vx, desired_vy))"

definition capped_v_fl :: "chaser_app \<Rightarrow> real \<times> real" where
  "capped_v_fl self =
     (let (desired_vx, desired_vy) = desired_v_fl self;
          speed = hypot_fl desired_vx desired_vy
      in if speed > real_of_int MAX_SPEED then
           let s = fl (fl (real_of_int MAX_SPEED) / max speed (fl (1 / 10 ^ 6)))
           in (fl (desired_vx * s), fl (desired_vy * s))
         else (desired_vx, desired_vy))"

text \<open>\<^verbatim>\<open>loop\<close>, lines 197--226, in double arithmetic, and \<open>n\<close> firings of the timer.\<close>

definition loop_fl :: "chaser_app \<Rightarrow> chaser_app" where
  "loop_fl self =
     (if \<not> running self \<or> \<not> sprite_exists self then self
      else
        let (x, y) = sprite_xy self;
            (desired_vx, desired_vy) = capped_v_fl self;
            (nx, ny) = clamp_to_canvas_fl self (fl (x + desired_vx)) (fl (y + desired_vy));
            self = self\<lparr>sprite_xy := (nx, ny)\<rparr>
        in if pointer_over_sprite_fl self then
             (if \<not> cursor_hidden self
              then self\<lparr>canvas_cursor := ''none'', cursor_hidden := True\<rparr>
              else self)
           else
             (if cursor_hidden self
              then self\<lparr>canvas_cursor := CURSOR_NORMAL, cursor_hidden := False\<rparr>
              else self))"


subsection \<open>Measures used by the properties\<close>

text \<open>The Euclidean distance from the sprite's centre to the target.\<close>

definition target_distance :: "chaser_app \<Rightarrow> real" where
  "target_distance self =
     hypot (real_of_int (fst (target self)) - fst (sprite_xy self))
           (real_of_int (snd (target self)) - snd (sprite_xy self))"

text \<open>
  A point is within the clamp range of a state when it lies, in each coordinate, between
  the half size and the larger of the half size and the canvas size less the half size.
\<close>

definition in_clamp_range :: "chaser_app \<Rightarrow> real \<Rightarrow> real \<Rightarrow> bool" where
  "in_clamp_range self x y \<longleftrightarrow>
     real_of_int (sprite_w self) / 2 \<le> x
     \<and> x \<le> max (real_of_int (sprite_w self) / 2)
              (real_of_int (winfo_width self) - real_of_int (sprite_w self) / 2)
     \<and> real_of_int (sprite_h self) / 2 \<le> y
     \<and> y \<le> max (real_of_int (sprite_h self) / 2)
              (real_of_int (winfo_height self) - real_of_int (sprite_h self) / 2)"

text \<open>The clamp range with the bounds that double arithmetic computes.\<close>

definition in_clamp_range_fl :: "chaser_app \<Rightarrow> real \<Rightarrow> real \<Rightarrow> bool" where
  "in_clamp_range_fl self x y \<longleftrightarrow>
     fl (real_of_int (sprite_w self) / 2) \<le> x
     \<and> x \<le> max (fl (real_of_int (sprite_w self) / 2))
              (fl (fl (real_of_int (winfo_width self)) - fl (real_of_int (sprite_w self) / 2)))
     \<and> fl (real_of_int (sprite_h self) / 2) \<le> y
     \<and> y \<le> max (fl (real_of_int (sprite_h self) / 2))
              (fl (fl (real_of_int (winfo_height self)) - fl (real_of_int (sprite_h self) / 2)))"



subsection \<open>Concrete states of the examples\<close>

text \<open>
  The application as constructed for a 100 by 60 image on a 900 by 600 canvas, after the
  mouse moved to the canvas origin: sprite at (450, 300), target (0, 0).
\<close>

definition scenario :: chaser_app where
  "scenario = on_mouse_move (chaser_init 100 60 900 600) 0 0"


text \<open>A 100 by 60 sprite centred at (10, 10) on a canvas that now reports 60 by 50.\<close>

definition resize_example :: chaser_app where
  "resize_example = (chaser_init 100 60 60 50)\<lparr>sprite_xy := (10, 10)\<rparr>"


text \<open>
  A 100 by 60 sprite in the top left corner of a 900 by 600 canvas, centred at (50, 30),
  the mouse at (450, 330): the desired velocity is (60, 45).
\<close>

definition limited_example :: chaser_app where
  "limited_example =
     (chaser_init 100 60 900 600)\<lparr>sprite_xy := (50, 30), target := (450, 330)\<rparr>"


section \<open>Properties\<close>

subsection \<open>Clamping one coordinate\<close>

lemma clamp1_lower: "lo \<le> min (max x lo) (max lo (hi::real))"
  by simp

lemma clamp1_upper: "min (max x lo) (max lo hi) \<le> max lo (hi::real)"
  by simp

lemma clamp1_pinned: "hi \<le> lo \<Longrightarrow> min (max x lo) (max lo hi) = (lo::real)"
  by simp

lemma clamp1_kept: "lo \<le> x \<and> x \<le> max lo hi \<Longrightarrow> min (max x lo) (max lo hi) = (x::real)"
  by simp

lemma clamp1_below: "x < lo \<Longrightarrow> min (max x lo) (max lo hi) = (lo::real)"
  by simp

lemma clamp1_above: "max lo hi < x \<Longrightarrow> min (max x lo) (max lo hi) = max lo (hi::real)"
  by simp

lemma clamp1_nonexpansive:
  "\<bar>min (max a lo) (max lo hi) - min (max b lo) (max lo hi)\<bar> \<le> \<bar>a - (b::real)\<bar>"
  by (simp add: min_def max_def abs_if)



lemma fst_clamp_to_canvas:
  "fst (clamp_to_canvas self x y) =
     min (max x (real_of_int (sprite_w self) / 2))
         (max (real_of_int (sprite_w self) / 2)
              (real_of_int (winfo_width self) - real_of_int (sprite_w self) / 2))"
  by (simp add: clamp_to_canvas_def Let_def)

lemma snd_clamp_to_canvas:
  "snd (clamp_to_canvas self x y) =
     min (max y (real_of_int (sprite_h self) / 2))
         (max (real_of_int (sprite_h self) / 2)
              (real_of_int (winfo_height self) - real_of_int (sprite_h self) / 2))"
  by (simp add: clamp_to_canvas_def Let_def)

lemma clamp_to_canvas_fixed:
  "in_clamp_range self x y \<Longrightarrow> clamp_to_canvas self x y = (x, y)"
  by (simp add: in_clamp_range_def clamp_to_canvas_def Let_def)

lemma fst_clamp_nonexpansive:
  "\<bar>fst (clamp_to_canvas self a y) - fst (clamp_to_canvas self b y')\<bar> \<le> \<bar>a - b\<bar>"
  unfolding fst_clamp_to_canvas by (rule clamp1_nonexpansive)

lemma snd_clamp_nonexpansive:
  "\<bar>snd (clamp_to_canvas self x a) - snd (clamp_to_canvas self x' b)\<bar> \<le> \<bar>a - b\<bar>"
  unfolding snd_clamp_to_canvas by (rule clamp1_nonexpansive)

subsection \<open>What one tick changes\<close>

lemma sprite_xy_loop:
  "running self \<Longrightarrow> sprite_exists self \<Longrightarrow>
   sprite_xy (loop self) =
     clamp_to_canvas self (fst (sprite_xy self) + fst (capped_v self))
                          (snd (sprite_xy self) + snd (capped_v self))"
  by (simp add: loop_def Let_def split_beta)

lemma loop_frame:
  "target (loop self) = target self"
  "sprite_w (loop self) = sprite_w self"
  "sprite_h (loop self) = sprite_h self"
  "winfo_width (loop self) = winfo_width self"
  "winfo_height (loop self) = winfo_height self"
  "running (loop self) = running self"
  "sprite_exists (loop self) = sprite_exists self"
  "vel (loop self) = vel self"
  by (simp_all add: loop_def Let_def split_beta)

lemma pointer_over_sprite_box:
  "pointer_over_sprite self \<longleftrightarrow>
     sprite_exists self
     \<and> fst (sprite_xy self) - real_of_int (sprite_w self) / 2 - real_of_int POINTER_PADDING
           \<le> real_of_int (fst (target self))
     \<and> real_of_int (fst (target self))
           \<le> fst (sprite_xy self) + real_of_int (sprite_w self) / 2 + real_of_int POINTER_PADDING
     \<and> snd (sprite_xy self) - real_of_int (sprite_h self) / 2 - real_of_int POINTER_PADDING
           \<le> real_of_int (snd (target self))
     \<and> real_of_int (snd (target self))
           \<le> snd (sprite_xy self) + real_of_int (sprite_h self) / 2 + real_of_int POINTER_PADDING"
  by (auto simp add: pointer_over_sprite_def Let_def split_beta)

lemma cursor_hidden_loop:
  "running self \<Longrightarrow> sprite_exists self \<Longrightarrow>
   cursor_hidden (loop self) = pointer_over_sprite (self\<lparr>sprite_xy := sprite_xy (loop self)\<rparr>)"
  by (simp add: loop_def Let_def split_beta pointer_over_sprite_def)

subsection \<open>Facts about the concrete states\<close>

lemma chaser_init_fields:
  "sprite_xy (chaser_init iw ih cw ch) = (450, 300)" "target (chaser_init iw ih cw ch) = (450, 300)"
  "sprite_w (chaser_init iw ih cw ch) = iw" "sprite_h (chaser_init iw ih cw ch) = ih"
  "winfo_width (chaser_init iw ih cw ch) = cw" "winfo_height (chaser_init iw ih cw ch) = ch"
  "running (chaser_init iw ih cw ch)" "sprite_exists (chaser_init iw ih cw ch)"
  "\<not> cursor_hidden (chaser_init iw ih cw ch)" "vel (chaser_init iw ih cw ch) = (0, 0)"
  by (simp_all add: chaser_init_def WINDOW_SIZE_def)

lemma scenario_fields:
  "sprite_xy scenario = (450, 300)" "target scenario = (0, 0)"
  "sprite_w scenario = 100" "sprite_h scenario = 60"
  "winfo_width scenario = 900" "winfo_height scenario = 600"
  "running scenario" "sprite_exists scenario"
  by (simp_all add: scenario_def on_mouse_move_def chaser_init_def WINDOW_SIZE_def)



subsection \<open>The Euclidean norm\<close>

lemma hypot_nonneg: "0 \<le> hypot a b"
  by (simp add: hypot_def)

lemma hypot_0_0: "hypot 0 0 = 0"
  by (simp add: hypot_def)


lemma hypot_scale: "hypot (a * k) (b * k) = \<bar>k\<bar> * hypot a b"
proof -
  have "(a * k)\<^sup>2 + (b * k)\<^sup>2 = k\<^sup>2 * (a\<^sup>2 + b\<^sup>2)"
    by (simp add: power_mult_distrib distrib_left mult.commute)
  then show ?thesis
    by (simp add: hypot_def real_sqrt_mult)
qed

lemma hypot_mono: "\<bar>a\<bar> \<le> \<bar>c\<bar> \<Longrightarrow> \<bar>b\<bar> \<le> \<bar>d\<bar> \<Longrightarrow> hypot a b \<le> hypot c d"
  unfolding hypot_def real_sqrt_le_iff abs_le_square_iff
  by (rule add_mono)


lemma hypot_60_45: "hypot 60 45 = 75"
  unfolding hypot_def by (rule real_sqrt_unique) simp_all

lemma hypot_sq: "(hypot a b)\<^sup>2 = a\<^sup>2 + b\<^sup>2"
  by (simp add: hypot_def)

lemma hypot_abs: "hypot \<bar>a\<bar> \<bar>b\<bar> = hypot a b"
  by (simp add: hypot_def)

lemma hypot_triangle: "hypot (a + c) (b + d) \<le> hypot a b + hypot c d"
  unfolding hypot_def by (rule real_sqrt_sum_squares_triangle_ineq)



subsection \<open>The velocity of a tick\<close>

lemma desired_v_eq:
  "desired_v self =
     ((real_of_int (fst (target self)) - fst (sprite_xy self)) * TARGET_EASING,
      (real_of_int (snd (target self)) - snd (sprite_xy self)) * TARGET_EASING)"
  by (simp add: desired_v_def Let_def split_beta)

lemma hypot_desired_v:
  "hypot (fst (desired_v self)) (snd (desired_v self)) = TARGET_EASING * target_distance self"
  unfolding desired_v_eq fst_conv snd_conv hypot_scale target_distance_def
  by (simp add: TARGET_EASING_def)

lemma capped_v_limited:
  assumes "hypot (fst (desired_v self)) (snd (desired_v self)) > real_of_int MAX_SPEED"
  shows "capped_v self =
           (fst (desired_v self) * (real_of_int MAX_SPEED / hypot (fst (desired_v self)) (snd (desired_v self))),
            snd (desired_v self) * (real_of_int MAX_SPEED / hypot (fst (desired_v self)) (snd (desired_v self))))"
proof -
  have "max (hypot (fst (desired_v self)) (snd (desired_v self))) (1 / 10 ^ 6)
          = hypot (fst (desired_v self)) (snd (desired_v self))"
    using assms by (simp add: MAX_SPEED_def)
  then show ?thesis
    using assms by (simp add: capped_v_def Let_def split_beta)
qed

lemma capped_v_unlimited:
  assumes "\<not> hypot (fst (desired_v self)) (snd (desired_v self)) > real_of_int MAX_SPEED"
  shows "capped_v self = desired_v self"
  using assms by (simp add: capped_v_def Let_def split_beta)

lemma hypot_capped_v_limited:
  assumes "hypot (fst (desired_v self)) (snd (desired_v self)) > real_of_int MAX_SPEED"
  shows "hypot (fst (capped_v self)) (snd (capped_v self)) = real_of_int MAX_SPEED"
proof -
  let ?speed = "hypot (fst (desired_v self)) (snd (desired_v self))"
  have pos: "0 < ?speed"
    using assms by (simp add: MAX_SPEED_def)
  have "hypot (fst (capped_v self)) (snd (capped_v self))
          = \<bar>real_of_int MAX_SPEED / ?speed\<bar> * ?speed"
    unfolding capped_v_limited [OF assms] fst_conv snd_conv hypot_scale ..
  also have "\<bar>real_of_int MAX_SPEED / ?speed\<bar> = real_of_int MAX_SPEED / ?speed"
    using pos by (simp add: MAX_SPEED_def)
  also have "real_of_int MAX_SPEED / ?speed * ?speed = real_of_int MAX_SPEED"
    using pos by simp
  finally show ?thesis .
qed

lemma hypot_capped_v_le:
  "hypot (fst (capped_v self)) (snd (capped_v self)) \<le> real_of_int MAX_SPEED"
proof (cases "hypot (fst (desired_v self)) (snd (desired_v self)) > real_of_int MAX_SPEED")
  case True
  then show ?thesis by (simp add: hypot_capped_v_limited)
next
  case False
  then show ?thesis by (simp add: capped_v_unlimited)
qed

subsection \<open>A tick from rest, and the first tick\<close>

lemma loop_at_rest:
  assumes "running self" and "sprite_exists self"
    and "sprite_xy self = (real_of_int (fst (target self)), real_of_int (snd (target self)))"
  shows "sprite_xy (loop self) = clamp_to_canvas self (fst (sprite_xy self)) (snd (sprite_xy self))"
proof -
  have d: "desired_v self = (0, 0)"
    by (simp add: desired_v_eq assms(3))
  then have "capped_v self = (0, 0)"
    by (simp add: capped_v_unlimited hypot_0_0 MAX_SPEED_def)
  then show ?thesis
    using assms(1,2) by (simp add: sprite_xy_loop)
qed

lemma chaser_init_loop_xy:
  "sprite_xy (loop (chaser_init iw ih cw ch)) = clamp_to_canvas (chaser_init iw ih cw ch) 450 300"
  by (simp add: loop_at_rest chaser_init_fields)

subsection \<open>Clamping does not lengthen a step\<close>

lemma loop_displacement_le_velocity:
  assumes "running self" and "sprite_exists self"
    and "in_clamp_range self (fst (sprite_xy self)) (snd (sprite_xy self))"
  shows "hypot (fst (sprite_xy (loop self)) - fst (sprite_xy self))
               (snd (sprite_xy (loop self)) - snd (sprite_xy self))
           \<le> hypot (fst (capped_v self)) (snd (capped_v self))"
proof -
  let ?x = "fst (sprite_xy self)" and ?y = "snd (sprite_xy self)"
  let ?vx = "fst (capped_v self)" and ?vy = "snd (capped_v self)"
  have old: "clamp_to_canvas self ?x ?y = (?x, ?y)"
    using assms(3) by (rule clamp_to_canvas_fixed)
  have new: "sprite_xy (loop self) = clamp_to_canvas self (?x + ?vx) (?y + ?vy)"
    using assms(1,2) by (rule sprite_xy_loop)
  have "\<bar>fst (clamp_to_canvas self (?x + ?vx) (?y + ?vy)) - fst (clamp_to_canvas self ?x ?y)\<bar>
          \<le> \<bar>(?x + ?vx) - ?x\<bar>"
    by (rule fst_clamp_nonexpansive)
  then have dx: "\<bar>fst (sprite_xy (loop self)) - ?x\<bar> \<le> \<bar>?vx\<bar>"
    by (simp add: old new)
  have "\<bar>snd (clamp_to_canvas self (?x + ?vx) (?y + ?vy)) - snd (clamp_to_canvas self ?x ?y)\<bar>
          \<le> \<bar>(?y + ?vy) - ?y\<bar>"
    by (rule snd_clamp_nonexpansive)
  then have dy: "\<bar>snd (sprite_xy (loop self)) - ?y\<bar> \<le> \<bar>?vy\<bar>"
    by (simp add: old new)
  from dx dy show ?thesis by (rule hypot_mono)
qed


lemma in_clamp_range_loop: "in_clamp_range (loop self) x y = in_clamp_range self x y"
  by (simp add: in_clamp_range_def loop_frame)

subsection \<open>A steady tick in exact arithmetic\<close>





subsection \<open>The scenario: sprite at (450, 300), target (0, 0)\<close>

lemma scenario_desired_v: "desired_v scenario = (- (135 / 2), - 45)"
  by (simp add: desired_v_eq scenario_fields TARGET_EASING_def)

lemma scenario_speed: "hypot (- (135 / 2)) (- 45) = 45 * sqrt 13 / 2"
  unfolding hypot_def
  by (rule real_sqrt_unique) (simp_all add: power_divide power_mult_distrib)

lemma sqrt_13_bounds: "36055 / 10000 < sqrt 13" "sqrt 13 < 36056 / 10000"
  by (rule real_less_rsqrt, simp add: power2_eq_square)
     (rule real_less_lsqrt, simp_all add: power2_eq_square)

lemma scenario_limited:
  "real_of_int MAX_SPEED < hypot (fst (desired_v scenario)) (snd (desired_v scenario))"
  using sqrt_13_bounds(1) by (simp add: scenario_desired_v scenario_speed MAX_SPEED_def)

lemma scenario_capped_v: "capped_v scenario = (- (54 / sqrt 13), - (36 / sqrt 13))"
  using capped_v_limited [OF scenario_limited]
  by (simp add: scenario_desired_v scenario_speed MAX_SPEED_def)

lemma scenario_capped_v_bounds:
  "- (14978 / 1000) < - (54 / sqrt 13)" "- (54 / sqrt 13) < - (14976 / 1000)"
  "- (9985 / 1000) < - (36 / sqrt 13)" "- (36 / sqrt 13) < - (9984 / 1000)"
  using sqrt_13_bounds by (simp_all add: field_simps)

lemma scenario_loop_xy:
  "sprite_xy (loop scenario) = (450 - 54 / sqrt 13, 300 - 36 / sqrt 13)"
proof -
  have "in_clamp_range scenario (450 - 54 / sqrt 13) (300 - 36 / sqrt 13)"
    using scenario_capped_v_bounds by (simp add: in_clamp_range_def scenario_fields)
  then have "clamp_to_canvas scenario (450 - 54 / sqrt 13) (300 - 36 / sqrt 13)
               = (450 - 54 / sqrt 13, 300 - 36 / sqrt 13)"
    by (rule clamp_to_canvas_fixed)
  then show ?thesis
    by (simp add: sprite_xy_loop scenario_fields scenario_capped_v)
qed

subsection \<open>Rounding to the nearest integer\<close>

lemma rne_error: "\<bar>of_int (rne z) - z\<bar> \<le> 1 / 2"
  unfolding rne_def Let_def by (auto simp: abs_if) linarith+

lemma rne_of_int: "rne (of_int k) = k"
  by (simp add: rne_def)

lemma rne_cases: "rne z = \<lfloor>z\<rfloor> \<or> rne z = \<lfloor>z\<rfloor> + 1"
  by (simp add: rne_def Let_def)

lemma rne_mono: "z \<le> z' \<Longrightarrow> rne z \<le> rne z'"
proof -
  assume le: "z \<le> z'"
  then have fle: "\<lfloor>z\<rfloor> \<le> \<lfloor>z'\<rfloor>" by (rule floor_mono)
  show ?thesis
  proof (cases "\<lfloor>z\<rfloor> = \<lfloor>z'\<rfloor>")
    case True
    with le show ?thesis
      by (auto simp: rne_def Let_def)
  next
    case False
    with fle have "\<lfloor>z\<rfloor> + 1 \<le> \<lfloor>z'\<rfloor>" by simp
    moreover have "rne z \<le> \<lfloor>z\<rfloor> + 1" using rne_cases [of z] by auto
    moreover have "\<lfloor>z'\<rfloor> \<le> rne z'" using rne_cases [of z'] by auto
    ultimately show ?thesis by linarith
  qed
qed

lemma rne_minus: "rne (- z) = - rne z"
proof (cases "z = of_int \<lfloor>z\<rfloor>")
  case True
  then obtain k where "z = of_int k" ..
  then have "- z = of_int (- k)" by simp
  then show ?thesis
    using rne_of_int [of "- k"] rne_of_int [of k] \<open>z = of_int k\<close> by simp
next
  case False
  then have f: "\<lfloor>- z\<rfloor> = - \<lfloor>z\<rfloor> - 1"
    by (metis ceiling_altdef ceiling_def of_int_floor_cancel add_diff_cancel_right'
        minus_diff_eq diff_minus_eq_add neg_equal_iff_equal uminus_add_conv_diff)
  show ?thesis
    unfolding rne_def Let_def f by (auto simp: algebra_simps)
qed

subsection \<open>Rounding to the nearest double\<close>

lemma fl_0: "fl 0 = 0"
  by (simp add: fl_def)

lemma fl_minus: "fl (- x) = - fl x"
  by (simp add: fl_def Let_def rne_minus)

lemma binade:
  assumes "x \<noteq> 0"
  shows "2 powr of_int \<lfloor>log 2 \<bar>x\<bar>\<rfloor> \<le> \<bar>x\<bar>" and "\<bar>x\<bar> < 2 powr (of_int \<lfloor>log 2 \<bar>x\<bar>\<rfloor> + 1)"
  using assms floor_log_eq_powr_iff [of "\<bar>x\<bar>" 2 "\<lfloor>log 2 \<bar>x\<bar>\<rfloor>"] by simp_all

lemma scaled_binade:
  assumes "x \<noteq> 0"
  shows "2 ^ 52 \<le> \<bar>x / 2 powr (of_int \<lfloor>log 2 \<bar>x\<bar>\<rfloor> - 52)\<bar>"
    and "\<bar>x / 2 powr (of_int \<lfloor>log 2 \<bar>x\<bar>\<rfloor> - 52)\<bar> < 2 ^ 53"
proof -
  let ?e = "of_int \<lfloor>log 2 \<bar>x\<bar>\<rfloor> :: real"
  have q: "2 powr (?e - 52) = 2 powr ?e / 2 ^ 52"
    by (simp add: powr_diff)
  have q1: "2 powr (?e + 1) = 2 powr ?e * 2"
    by (simp add: powr_add)
  have pos: "0 < 2 powr ?e" by simp
  from binade(1) [OF assms] show "2 ^ 52 \<le> \<bar>x / 2 powr (?e - 52)\<bar>"
    unfolding q using pos by (simp add: abs_mult field_simps)
  from binade(2) [OF assms] show "\<bar>x / 2 powr (?e - 52)\<bar> < 2 ^ 53"
    unfolding q q1 using pos by (simp add: abs_mult field_simps)
qed

lemma fl_error: "\<bar>fl x - x\<bar> \<le> \<bar>x\<bar> / 2 ^ 53"
proof (cases "x = 0")
  case True
  then show ?thesis by (simp add: fl_0)
next
  case False
  let ?q = "2 powr (of_int \<lfloor>log 2 \<bar>x\<bar>\<rfloor> - 52) :: real"
  have qpos: "0 < ?q" by simp
  have "fl x - x = (of_int (rne (x / ?q)) - x / ?q) * ?q"
    using False by (simp add: fl_def Let_def algebra_simps)
  then have "\<bar>fl x - x\<bar> = \<bar>of_int (rne (x / ?q)) - x / ?q\<bar> * ?q"
    using qpos by (simp add: abs_mult)
  also have "\<dots> \<le> 1 / 2 * ?q"
    using rne_error [of "x / ?q"] qpos by (intro mult_right_mono) simp_all
  also have "\<dots> \<le> \<bar>x\<bar> / 2 ^ 53"
  proof -
    have "2 ^ 52 * ?q \<le> \<bar>x\<bar>"
      using scaled_binade(1) [OF False] qpos by (simp add: abs_mult field_simps)
    then show ?thesis by simp
  qed
  finally show ?thesis .
qed

lemma fl_upper: "\<bar>fl x\<bar> \<le> (1 + 1 / 2 ^ 53) * \<bar>x\<bar>"
proof -
  have "\<bar>fl x\<bar> \<le> \<bar>x\<bar> + \<bar>fl x - x\<bar>" by linarith
  also have "\<dots> \<le> \<bar>x\<bar> + \<bar>x\<bar> / 2 ^ 53"
    using fl_error [of x] by linarith
  also have "\<dots> = (1 + 1 / 2 ^ 53) * \<bar>x\<bar>" by (simp add: algebra_simps)
  finally show ?thesis .
qed

lemma fl_lower: "(1 - 1 / 2 ^ 53) * \<bar>x\<bar> \<le> \<bar>fl x\<bar>"
proof -
  have "(1 - 1 / 2 ^ 53) * \<bar>x\<bar> = \<bar>x\<bar> - \<bar>x\<bar> / 2 ^ 53" by (simp add: algebra_simps)
  also have "\<dots> \<le> \<bar>x\<bar> - \<bar>fl x - x\<bar>"
    using fl_error [of x] by linarith
  also have "\<dots> \<le> \<bar>fl x\<bar>" by linarith
  finally show ?thesis .
qed

lemma fl_eval:
  fixes k :: nat
  assumes "2 ^ 52 \<le> \<bar>x\<bar> * 2 ^ k" and "\<bar>x\<bar> * 2 ^ k < 2 ^ 53"
  shows "fl x = of_int (rne (x * 2 ^ k)) / 2 ^ k"
proof -
  have nz: "x \<noteq> 0" using assms(1) by auto
  have p: "2 powr (52 - real k) = 2 ^ 52 / 2 ^ k"
    by (simp add: powr_diff powr_realpow)
  have "\<lfloor>log 2 \<bar>x\<bar>\<rfloor> = 52 - int k"
  proof -
    have "2 powr of_int (52 - int k) \<le> \<bar>x\<bar>"
      using assms(1) by (simp add: p field_simps)
    moreover have "\<bar>x\<bar> < 2 powr (of_int (52 - int k) + 1)"
    proof -
      have "2 powr (of_int (52 - int k) + 1) = (2::real) powr (53 - real k)"
        by simp
      also have "\<dots> = 2 ^ 53 / 2 ^ k"
        by (simp add: powr_diff powr_realpow)
      finally have e: "2 powr (of_int (52 - int k) + 1) = (2 ^ 53 / 2 ^ k :: real)" .
      have "\<bar>x\<bar> < 2 ^ 53 / 2 ^ k"
        using assms(2) by (simp add: pos_less_divide_eq)
      then show ?thesis unfolding e .
    qed
    ultimately show ?thesis
      using nz floor_log_eq_powr_iff [of "\<bar>x\<bar>" 2 "52 - int k"] by simp
  qed
  then have "2 powr (of_int \<lfloor>log 2 \<bar>x\<bar>\<rfloor> - 52) = (1 / 2 ^ k :: real)"
    by (simp add: powr_minus powr_realpow inverse_eq_divide)
  then show ?thesis
    using nz by (simp add: fl_def Let_def)
qed

lemma fl_pos_range:
  assumes "0 < x"
  shows "2 powr of_int \<lfloor>log 2 x\<rfloor> \<le> fl x" and "fl x \<le> 2 powr (of_int \<lfloor>log 2 x\<rfloor> + 1)"
proof -
  let ?e = "of_int \<lfloor>log 2 x\<rfloor> :: real"
  let ?q = "2 powr (?e - 52) :: real"
  have nz: "x \<noteq> 0" and ax: "\<bar>x\<bar> = x" using assms by simp_all
  have qpos: "0 < ?q" by simp
  have f: "fl x = of_int (rne (x / ?q)) * ?q"
    using nz ax by (simp add: fl_def Let_def)
  have zpos: "0 < x / ?q" using assms qpos by simp
  have lo: "2 ^ 52 \<le> x / ?q" and hi: "x / ?q < 2 ^ 53"
    using scaled_binade [OF nz] zpos unfolding ax by simp_all
  have "rne (of_int (2 ^ 52)) \<le> rne (x / ?q)"
    using lo by (intro rne_mono) simp
  then have lo': "(2 ^ 52 :: real) \<le> of_int (rne (x / ?q))"
    unfolding rne_of_int by (metis of_int_le_iff of_int_numeral of_int_power)
  have "rne (x / ?q) \<le> rne (of_int (2 ^ 53))"
    using hi by (intro rne_mono) simp
  then have hi': "of_int (rne (x / ?q)) \<le> (2 ^ 53 :: real)"
    unfolding rne_of_int by (metis of_int_le_iff of_int_numeral of_int_power)
  have q52: "2 ^ 52 * ?q = 2 powr ?e"
    by (simp add: powr_diff)
  have q53: "2 ^ 53 * ?q = 2 powr (?e + 1)"
    by (simp add: powr_diff powr_add)
  from lo' qpos have "2 ^ 52 * ?q \<le> of_int (rne (x / ?q)) * ?q"
    by (intro mult_right_mono) simp_all
  then show "2 powr ?e \<le> fl x" unfolding f q52 .
  from hi' qpos have "of_int (rne (x / ?q)) * ?q \<le> 2 ^ 53 * ?q"
    by (intro mult_right_mono) simp_all
  then show "fl x \<le> 2 powr (?e + 1)" unfolding f q53 .
qed

lemma fl_pos: "0 < x \<Longrightarrow> 0 < fl x"
  using fl_pos_range(1) [of x] by (smt (verit) powr_gt_zero)

lemma fl_nonneg: "0 \<le> x \<Longrightarrow> 0 \<le> fl x"
  using fl_pos [of x] by (cases "x = 0") (simp_all add: fl_0 less_eq_real_def)






lemma fl_fixed:
  assumes m: "\<bar>m\<bar> < 2 ^ 53"
  shows "fl (of_int m * 2 powr of_int k) = of_int m * 2 powr of_int k"
proof (cases "m = 0")
  case True
  then show ?thesis by (simp add: fl_0)
next
  case False
  let ?x = "of_int m * 2 powr of_int k :: real"
  let ?e = "\<lfloor>log 2 \<bar>?x\<bar>\<rfloor>"
  have nz: "?x \<noteq> 0" using False by simp
  have "\<bar>of_int m :: real\<bar> < 2 ^ 53"
    using m by (metis of_int_abs of_int_less_iff of_int_numeral of_int_power)
  then have "\<bar>?x\<bar> < 2 ^ 53 * 2 powr of_int k"
    by (simp add: abs_mult)
  also have "\<dots> = 2 powr (of_int k + 53)"
    by (simp add: powr_add)
  finally have "2 powr of_int ?e < (2::real) powr (of_int k + 53)"
    using binade(1) [OF nz] by linarith
  then have "(of_int ?e :: real) < of_int k + 53" by simp
  then have "(of_int ?e :: real) < of_int (k + 53)" by simp
  then have "?e < k + 53" by (simp only: of_int_less_iff)
  then have j: "0 \<le> k + 52 - ?e" by simp
  define j where "j = nat (k + 52 - ?e)"
  have jr: "real j = of_int k + 52 - of_int ?e"
    using j unfolding j_def by (simp add: of_nat_nat)
  have "(of_int k + 52 - of_int ?e :: real) = of_int k - (of_int ?e - 52)"
    by simp
  then have "2 powr of_int k / 2 powr (of_int ?e - 52) = (2::real) powr (of_int k + 52 - of_int ?e)"
    by (simp only: powr_diff)
  also have "\<dots> = 2 powr (real j)" by (simp only: jr)
  also have "\<dots> = 2 ^ j" by (simp add: powr_realpow)
  finally have steps: "2 powr of_int k / 2 powr (of_int ?e - 52) = (2 ^ j :: real)" .
  have "?x / 2 powr (of_int ?e - 52) = of_int m * (2 powr of_int k / 2 powr (of_int ?e - 52))"
    by simp
  also have "\<dots> = of_int (m * 2 ^ j)"
    by (simp add: steps)
  finally have z: "?x / 2 powr (of_int ?e - 52) = of_int (m * 2 ^ j)" .
  have "fl ?x = of_int (rne (?x / 2 powr (of_int ?e - 52))) * 2 powr (of_int ?e - 52)"
    using nz by (simp add: fl_def Let_def)
  also have "\<dots> = of_int (m * 2 ^ j) * 2 powr (of_int ?e - 52)"
    by (simp only: z rne_of_int)
  also have "\<dots> = ?x / 2 powr (of_int ?e - 52) * 2 powr (of_int ?e - 52)"
    by (simp only: z)
  also have "\<dots> = ?x" by simp
  finally show ?thesis .
qed

lemma fl_of_int: "\<bar>n\<bar> < 2 ^ 53 \<Longrightarrow> fl (of_int n) = of_int n"
  using fl_fixed [of n 0] by simp





subsection \<open>Doubles of the program and of the examples\<close>

lemma fl_1: "fl 1 = 1"
  using fl_of_int [of 1] by simp

lemma fl_numeral: "fl (numeral n) = numeral n" if "(numeral n :: int) < 2 ^ 53"
  using fl_of_int [of "numeral n"] that by simp

lemma fl_small_ints:
  "fl 18 = 18" "fl 450 = 450" "fl 330 = 330" "fl 400 = 400" "fl 300 = 300" "fl 75 = 75"
  "fl 50 = 50" "fl 30 = 30"
  by (simp_all add: fl_numeral)

lemma fl_MAX_SPEED: "fl (real_of_int MAX_SPEED) = real_of_int MAX_SPEED"
  by (rule fl_of_int) (simp add: MAX_SPEED_def)

lemma fl_epsilon_small: "fl (1 / 10 ^ 6) < 18"
  using fl_upper [of "1 / 10 ^ 6"] by simp

lemma TARGET_EASING_fl_eq: "TARGET_EASING_fl = 5404319552844595 / 2 ^ 55"
  unfolding TARGET_EASING_fl_def TARGET_EASING_def
  by (subst fl_eval [where k = 55]) (simp_all add: rne_def Let_def)


subsection \<open>What one tick changes in double arithmetic\<close>

lemma fst_clamp_to_canvas_fl:
  "fst (clamp_to_canvas_fl self x y) =
     min (max x (fl (real_of_int (sprite_w self) / 2)))
         (max (fl (real_of_int (sprite_w self) / 2))
              (fl (fl (real_of_int (winfo_width self)) - fl (real_of_int (sprite_w self) / 2))))"
  by (simp add: clamp_to_canvas_fl_def Let_def)

lemma snd_clamp_to_canvas_fl:
  "snd (clamp_to_canvas_fl self x y) =
     min (max y (fl (real_of_int (sprite_h self) / 2)))
         (max (fl (real_of_int (sprite_h self) / 2))
              (fl (fl (real_of_int (winfo_height self)) - fl (real_of_int (sprite_h self) / 2))))"
  by (simp add: clamp_to_canvas_fl_def Let_def)

lemma clamp_to_canvas_fl_fixed:
  "in_clamp_range_fl self x y \<Longrightarrow> clamp_to_canvas_fl self x y = (x, y)"
  by (simp add: in_clamp_range_fl_def clamp_to_canvas_fl_def Let_def)



lemma sprite_xy_loop_fl:
  "running self \<Longrightarrow> sprite_exists self \<Longrightarrow>
   sprite_xy (loop_fl self) =
     clamp_to_canvas_fl self (fl (fst (sprite_xy self) + fst (capped_v_fl self)))
                             (fl (snd (sprite_xy self) + snd (capped_v_fl self)))"
  by (simp add: loop_fl_def Let_def split_beta)



lemma desired_v_fl_eq:
  "desired_v_fl self =
     (fl (fl (fl (real_of_int (fst (target self))) - fst (sprite_xy self)) * TARGET_EASING_fl),
      fl (fl (fl (real_of_int (snd (target self))) - snd (sprite_xy self)) * TARGET_EASING_fl))"
  by (simp add: desired_v_fl_def Let_def split_beta)

lemma capped_v_fl_limited:
  assumes "real_of_int MAX_SPEED < hypot_fl (fst (desired_v_fl self)) (snd (desired_v_fl self))"
  shows "capped_v_fl self =
           (fl (fst (desired_v_fl self)
                  * fl (real_of_int MAX_SPEED / hypot_fl (fst (desired_v_fl self)) (snd (desired_v_fl self)))),
            fl (snd (desired_v_fl self)
                  * fl (real_of_int MAX_SPEED / hypot_fl (fst (desired_v_fl self)) (snd (desired_v_fl self)))))"
proof -
  have "max (hypot_fl (fst (desired_v_fl self)) (snd (desired_v_fl self))) (fl (1 / 10 ^ 6))
          = hypot_fl (fst (desired_v_fl self)) (snd (desired_v_fl self))"
    using assms fl_epsilon_small by (simp add: MAX_SPEED_def)
  then show ?thesis
    using assms by (simp add: capped_v_fl_def Let_def split_beta fl_MAX_SPEED)
qed

lemma capped_v_fl_unlimited:
  assumes "\<not> real_of_int MAX_SPEED < hypot_fl (fst (desired_v_fl self)) (snd (desired_v_fl self))"
  shows "capped_v_fl self = desired_v_fl self"
  using assms by (simp add: capped_v_fl_def Let_def split_beta)

subsection \<open>The norm of the capped velocity in double arithmetic\<close>

lemma hypot_fl_scaled_upper:
  assumes "0 \<le> s"
  shows "hypot (fl (a * s)) (fl (b * s)) \<le> (1 + 1 / 2 ^ 53) * s * hypot a b"
proof -
  have "\<bar>fl (a * s)\<bar> \<le> \<bar>a * ((1 + 1 / 2 ^ 53) * s)\<bar>"
    using fl_upper [of "a * s"] assms by (simp add: abs_mult algebra_simps)
  moreover have "\<bar>fl (b * s)\<bar> \<le> \<bar>b * ((1 + 1 / 2 ^ 53) * s)\<bar>"
    using fl_upper [of "b * s"] assms by (simp add: abs_mult algebra_simps)
  ultimately have "hypot (fl (a * s)) (fl (b * s))
                     \<le> hypot (a * ((1 + 1 / 2 ^ 53) * s)) (b * ((1 + 1 / 2 ^ 53) * s))"
    by (rule hypot_mono)
  also have "\<dots> = \<bar>(1 + 1 / 2 ^ 53) * s\<bar> * hypot a b"
    by (rule hypot_scale)
  also have "\<dots> = (1 + 1 / 2 ^ 53) * s * hypot a b"
    using assms by (simp add: abs_mult)
  finally show ?thesis .
qed

lemma hypot_fl_scaled_lower:
  assumes "0 \<le> s"
  shows "(1 - 1 / 2 ^ 53) * s * hypot a b \<le> hypot (fl (a * s)) (fl (b * s))"
proof -
  have "\<bar>a * ((1 - 1 / 2 ^ 53) * s)\<bar> \<le> \<bar>fl (a * s)\<bar>"
    using fl_lower [of "a * s"] assms by (simp add: abs_mult algebra_simps)
  moreover have "\<bar>b * ((1 - 1 / 2 ^ 53) * s)\<bar> \<le> \<bar>fl (b * s)\<bar>"
    using fl_lower [of "b * s"] assms by (simp add: abs_mult algebra_simps)
  ultimately have "hypot (a * ((1 - 1 / 2 ^ 53) * s)) (b * ((1 - 1 / 2 ^ 53) * s))
                     \<le> hypot (fl (a * s)) (fl (b * s))"
    by (rule hypot_mono)
  moreover have "hypot (a * ((1 - 1 / 2 ^ 53) * s)) (b * ((1 - 1 / 2 ^ 53) * s))
                   = \<bar>(1 - 1 / 2 ^ 53) * s\<bar> * hypot a b"
    by (rule hypot_scale)
  moreover have "\<bar>(1 - 1 / 2 ^ 53) * s\<bar> = (1 - 1 / 2 ^ 53) * s"
    using assms by (simp add: abs_mult)
  ultimately show ?thesis by simp
qed

lemma hypot_capped_v_fl_limited:
  assumes lim: "real_of_int MAX_SPEED < hypot_fl (fst (desired_v_fl self)) (snd (desired_v_fl self))"
  shows "\<bar>hypot (fst (capped_v_fl self)) (snd (capped_v_fl self)) - real_of_int MAX_SPEED\<bar> \<le> 72 / 2 ^ 53"
proof -
  let ?a = "fst (desired_v_fl self)" and ?b = "snd (desired_v_fl self)"
  define N where "N = hypot ?a ?b"
  define sp where "sp = fl N"
  define t where "t = 18 / sp"
  define s where "s = fl t"
  define U :: real where "U = 1 + 1 / 2 ^ 53"
  define L :: real where "L = 1 - 1 / 2 ^ 53"
  have sp18: "18 < sp"
    using lim by (simp add: sp_def N_def hypot_fl_def MAX_SPEED_def)
  have Nnn: "0 \<le> N" by (simp add: N_def hypot_nonneg)
  have Lpos: "0 < L" and Upos: "0 < U" by (simp_all add: L_def U_def)
  have sp_lo: "L * N \<le> sp" and sp_hi: "sp \<le> U * N"
    using fl_lower [of N] fl_upper [of N] Nnn sp18 by (simp_all add: sp_def L_def U_def)
  have tpos: "0 < t" using sp18 by (simp add: t_def)
  have tsp: "t * sp = 18" using sp18 by (simp add: t_def)
  have spos: "0 < s" using tpos by (simp add: s_def fl_pos)
  have s_lo: "L * t \<le> s" and s_hi: "s \<le> U * t"
    using fl_lower [of t] fl_upper [of t] tpos spos by (simp_all add: s_def L_def U_def)
  have c: "capped_v_fl self = (fl (?a * s), fl (?b * s))"
    using capped_v_fl_limited [OF lim]
    by (simp add: s_def t_def sp_def N_def hypot_fl_def MAX_SPEED_def)
  have tN_hi: "t * N \<le> 18 / L"
  proof -
    have "t * (L * N) \<le> t * sp" using sp_lo tpos by (intro mult_left_mono) simp_all
    then have "L * (t * N) \<le> 18" using tsp by (simp add: mult.left_commute)
    then show ?thesis using Lpos by (simp add: pos_le_divide_eq mult.commute)
  qed
  have tN_lo: "18 / U \<le> t * N"
  proof -
    have "t * sp \<le> t * (U * N)" using sp_hi tpos by (intro mult_left_mono) simp_all
    then have "18 \<le> U * (t * N)" using tsp by (simp add: mult.left_commute)
    then show ?thesis using Upos by (simp add: pos_divide_le_eq mult.commute)
  qed
  have "hypot (fl (?a * s)) (fl (?b * s)) \<le> U * s * N"
    using hypot_fl_scaled_upper [of s ?a ?b] spos by (simp add: U_def N_def)
  also have "\<dots> \<le> U * (U * t) * N"
    using s_hi Upos Nnn by (intro mult_right_mono mult_left_mono) simp_all
  also have "\<dots> = U * U * (t * N)" by simp
  also have "\<dots> \<le> U * U * (18 / L)"
    using tN_hi Upos by (intro mult_left_mono) simp_all
  also have "\<dots> \<le> 18 + 72 / 2 ^ 53"
    by (simp add: U_def L_def)
  finally have upper: "hypot (fl (?a * s)) (fl (?b * s)) \<le> 18 + 72 / 2 ^ 53" .
  have "18 - 72 / 2 ^ 53 \<le> L * L * (18 / U)"
    by (simp add: U_def L_def)
  also have "\<dots> \<le> L * L * (t * N)"
    using tN_lo Lpos by (intro mult_left_mono) simp_all
  also have "\<dots> = L * (L * t) * N" by simp
  also have "\<dots> \<le> L * s * N"
    using s_lo Lpos Nnn by (intro mult_right_mono mult_left_mono) simp_all
  also have "\<dots> \<le> hypot (fl (?a * s)) (fl (?b * s))"
    using hypot_fl_scaled_lower [of s ?a ?b] spos by (simp add: L_def N_def)
  finally have lower: "18 - 72 / 2 ^ 53 \<le> hypot (fl (?a * s)) (fl (?b * s))" .
  from upper lower
  have "\<bar>hypot (fl (?a * s)) (fl (?b * s)) - 18\<bar> \<le> 72 / 2 ^ 53"
    by linarith
  then show ?thesis
    by (simp only: c fst_conv snd_conv MAX_SPEED_def of_int_numeral)
qed

lemma hypot_capped_v_fl_le:
  "hypot (fst (capped_v_fl self)) (snd (capped_v_fl self)) \<le> real_of_int MAX_SPEED + 72 / 2 ^ 53"
proof (cases "real_of_int MAX_SPEED < hypot_fl (fst (desired_v_fl self)) (snd (desired_v_fl self))")
  case True
  then have "\<bar>hypot (fst (capped_v_fl self)) (snd (capped_v_fl self)) - real_of_int MAX_SPEED\<bar>
               \<le> 72 / 2 ^ 53"
    by (rule hypot_capped_v_fl_limited)
  then show ?thesis by linarith
next
  case False
  let ?N = "hypot (fst (desired_v_fl self)) (snd (desired_v_fl self))"
  have "0 \<le> ?N" by (rule hypot_nonneg)
  then have "(1 - 1 / 2 ^ 53) * ?N \<le> fl ?N"
    using fl_lower [of ?N] fl_nonneg [of ?N] by simp
  also have "\<dots> \<le> 18"
    using False by (simp add: hypot_fl_def MAX_SPEED_def)
  finally have "?N \<le> 18 / (1 - 1 / 2 ^ 53)"
    by (simp add: pos_le_divide_eq mult.commute)
  also have "\<dots> \<le> 18 + 72 / 2 ^ 53" by simp
  finally show ?thesis
    using False by (simp add: capped_v_fl_unlimited MAX_SPEED_def)
qed

lemma loop_fl_displacement:
  assumes "running self" and "sprite_exists self"
    and "in_clamp_range_fl self (fst (sprite_xy self)) (snd (sprite_xy self))"
  shows "hypot (fst (sprite_xy (loop_fl self)) - fst (sprite_xy self))
               (snd (sprite_xy (loop_fl self)) - snd (sprite_xy self))
           \<le> real_of_int MAX_SPEED
               + (91 + hypot (fst (sprite_xy self)) (snd (sprite_xy self))) / 2 ^ 53"
proof -
  let ?x = "fst (sprite_xy self)" and ?y = "snd (sprite_xy self)"
  let ?vx = "fst (capped_v_fl self)" and ?vy = "snd (capped_v_fl self)"
  define U :: real where "U = 1 + 1 / 2 ^ 53"
  define u :: real where "u = 1 / 2 ^ 53"
  have old: "clamp_to_canvas_fl self ?x ?y = (?x, ?y)"
    using assms(3) by (rule clamp_to_canvas_fl_fixed)
  have new: "sprite_xy (loop_fl self) = clamp_to_canvas_fl self (fl (?x + ?vx)) (fl (?y + ?vy))"
    using assms(1,2) by (rule sprite_xy_loop_fl)
  have step: "\<bar>fl (p + v) - p\<bar> \<le> \<bar>v * U\<bar> + \<bar>p * u\<bar>" for p v :: real
  proof -
    have "\<bar>fl (p + v) - p\<bar> \<le> \<bar>v\<bar> + \<bar>fl (p + v) - (p + v)\<bar>" by linarith
    also have "\<dots> \<le> \<bar>v\<bar> + \<bar>p + v\<bar> / 2 ^ 53"
      using fl_error [of "p + v"] by linarith
    also have "\<dots> \<le> \<bar>v\<bar> + (\<bar>p\<bar> + \<bar>v\<bar>) / 2 ^ 53"
      by (simp add: divide_right_mono)
    also have "\<dots> = \<bar>v\<bar> * U + \<bar>p\<bar> * u"
      unfolding U_def u_def by (simp add: field_simps)
    also have "\<dots> = \<bar>v * U\<bar> + \<bar>p * u\<bar>"
      by (simp add: abs_mult U_def u_def)
    finally show ?thesis .
  qed
  have "\<bar>fst (clamp_to_canvas_fl self (fl (?x + ?vx)) (fl (?y + ?vy))) - fst (clamp_to_canvas_fl self ?x ?y)\<bar>
          \<le> \<bar>fl (?x + ?vx) - ?x\<bar>"
    unfolding fst_clamp_to_canvas_fl by (rule clamp1_nonexpansive)
  then have dx: "\<bar>fst (sprite_xy (loop_fl self)) - ?x\<bar> \<le> \<bar>\<bar>?vx * U\<bar> + \<bar>?x * u\<bar>\<bar>"
    using step [of ?x ?vx] by (simp add: old new)
  have "\<bar>snd (clamp_to_canvas_fl self (fl (?x + ?vx)) (fl (?y + ?vy))) - snd (clamp_to_canvas_fl self ?x ?y)\<bar>
          \<le> \<bar>fl (?y + ?vy) - ?y\<bar>"
    unfolding snd_clamp_to_canvas_fl by (rule clamp1_nonexpansive)
  then have dy: "\<bar>snd (sprite_xy (loop_fl self)) - ?y\<bar> \<le> \<bar>\<bar>?vy * U\<bar> + \<bar>?y * u\<bar>\<bar>"
    using step [of ?y ?vy] by (simp add: old new)
  have "hypot (fst (sprite_xy (loop_fl self)) - ?x) (snd (sprite_xy (loop_fl self)) - ?y)
          \<le> hypot (\<bar>?vx * U\<bar> + \<bar>?x * u\<bar>) (\<bar>?vy * U\<bar> + \<bar>?y * u\<bar>)"
    using dx dy by (rule hypot_mono)
  also have "\<dots> \<le> hypot \<bar>?vx * U\<bar> \<bar>?vy * U\<bar> + hypot \<bar>?x * u\<bar> \<bar>?y * u\<bar>"
    by (rule hypot_triangle)
  also have "\<dots> = U * hypot ?vx ?vy + u * hypot ?x ?y"
    unfolding hypot_abs hypot_scale by (simp add: U_def u_def)
  also have "\<dots> \<le> U * (18 + 72 / 2 ^ 53) + u * hypot ?x ?y"
    using hypot_capped_v_fl_le [of self] by (simp add: U_def MAX_SPEED_def)
  also have "\<dots> \<le> 18 + (91 + hypot ?x ?y) / 2 ^ 53"
    by (simp add: U_def u_def algebra_simps add_divide_distrib)
  finally show ?thesis by (simp add: MAX_SPEED_def)
qed

subsection \<open>A steady tick in double arithmetic\<close>








subsection \<open>The examples in double arithmetic\<close>

lemma limited_example_desired_v_fl: "desired_v_fl limited_example = (60, 45)"
proof -
  have a: "fl (400 * (5404319552844595 / 2 ^ 55)) = 60"
    by (subst fl_eval [where k = 47]) (simp_all add: rne_def Let_def)
  have b: "fl (300 * (5404319552844595 / 2 ^ 55)) = 45"
    by (subst fl_eval [where k = 47]) (simp_all add: rne_def Let_def)
  have "desired_v_fl limited_example = (fl (400 * TARGET_EASING_fl), fl (300 * TARGET_EASING_fl))"
    by (simp add: desired_v_fl_def limited_example_def chaser_init_def fl_small_ints)
  also have "\<dots> = (60, 45)"
    by (simp only: TARGET_EASING_fl_eq a b)
  finally show ?thesis .
qed

lemma limited_example_capped_v_fl:
  "capped_v_fl limited_example = (2026619832316723 / 2 ^ 47, 6079859496950169 / 2 ^ 49)"
proof -
  have h: "hypot_fl 60 45 = 75"
    by (simp add: hypot_fl_def hypot_60_45 fl_small_ints)
  have s: "fl (18 / 75) = 1080863910568919 / 2 ^ 52"
    by (subst fl_eval [where k = 55]) (simp_all add: rne_def Let_def)
  have a: "fl (60 * (1080863910568919 / 2 ^ 52)) = 2026619832316723 / 2 ^ 47"
    by (subst fl_eval [where k = 49]) (simp_all add: rne_def Let_def)
  have b: "fl (45 * (1080863910568919 / 2 ^ 52)) = 6079859496950169 / 2 ^ 49"
    by (subst fl_eval [where k = 49]) (simp_all add: rne_def Let_def)
  have m: "max 75 (fl (1 / 10 ^ 6)) = 75"
    using fl_epsilon_small by simp
  have "capped_v_fl limited_example = (fl (60 * fl (18 / 75)), fl (45 * fl (18 / 75)))"
    using m
    by (simp add: capped_v_fl_def limited_example_desired_v_fl h MAX_SPEED_def fl_small_ints Let_def)
  also have "\<dots> = (fl (60 * (1080863910568919 / 2 ^ 52)), fl (45 * (1080863910568919 / 2 ^ 52)))"
    by (simp only: s)
  also have "\<dots> = (2026619832316723 / 2 ^ 47, 6079859496950169 / 2 ^ 49)"
    by (simp only: a b)
  finally show ?thesis .
qed

lemma limited_example_limited:
  "real_of_int MAX_SPEED < hypot (fst (desired_v limited_example)) (snd (desired_v limited_example))"
  "real_of_int MAX_SPEED
     < hypot_fl (fst (desired_v_fl limited_example)) (snd (desired_v_fl limited_example))"
proof -
  have "desired_v limited_example = (60, 45)"
    by (simp add: desired_v_eq limited_example_def TARGET_EASING_def)
  then show "real_of_int MAX_SPEED
      < hypot (fst (desired_v limited_example)) (snd (desired_v limited_example))"
    by (simp add: hypot_60_45 MAX_SPEED_def)
  show "real_of_int MAX_SPEED
     < hypot_fl (fst (desired_v_fl limited_example)) (snd (desired_v_fl limited_example))"
    by (simp add: limited_example_desired_v_fl hypot_fl_def hypot_60_45 fl_small_ints MAX_SPEED_def)
qed

lemma chaser_init_desired_v_fl: "desired_v_fl (chaser_init iw ih cw ch) = (0, 0)"
  by (simp add: desired_v_fl_eq chaser_init_fields fl_numeral fl_0)

lemma chaser_init_loop_fl_xy:
  "sprite_xy (loop_fl (chaser_init iw ih cw ch)) = clamp_to_canvas_fl (chaser_init iw ih cw ch) 450 300"
proof -
  have "capped_v_fl (chaser_init iw ih cw ch) = (0, 0)"
    by (simp add: capped_v_fl_def chaser_init_desired_v_fl hypot_fl_def hypot_0_0 fl_0 MAX_SPEED_def)
  then show ?thesis
    by (simp add: sprite_xy_loop_fl chaser_init_fields fl_numeral)
qed

lemma scenario_in_clamp_range_fl: "in_clamp_range_fl scenario 450 300"
  by (simp add: in_clamp_range_fl_def scenario_fields fl_numeral)



subsection \<open>The clamp is idempotent\<close>

text \<open>
  Claim C10. For every point \<open>(x, y)\<close>, every sprite size and every canvas size,
  \<^verbatim>\<open>clamp_to_canvas\<close> applied to its own result returns that result.
\<close>

theorem clamp_to_canvas_idempotent:
  "clamp_to_canvas self (fst (clamp_to_canvas self x y)) (snd (clamp_to_canvas self x y))
     = clamp_to_canvas self x y"
  by (simp add: clamp_to_canvas_def Let_def)

subsection \<open>The position after a tick is clamped\<close>

text \<open>
  Claim C1. A tick that passes the guard of \<^verbatim>\<open>loop\<close> commits a position that lies, in
  each coordinate, between the half size of the sprite and the larger of that half size
  and the canvas size less the half size. Where the canvas is no larger than the sprite in
  a dimension, the coordinate is the half size.
\<close>

theorem loop_position_clamped:
  assumes "running self" and "sprite_exists self"
  shows "real_of_int (sprite_w self) / 2 \<le> fst (sprite_xy (loop self))
       \<and> fst (sprite_xy (loop self))
           \<le> max (real_of_int (sprite_w self) / 2)
                  (real_of_int (winfo_width self) - real_of_int (sprite_w self) / 2)
       \<and> real_of_int (sprite_h self) / 2 \<le> snd (sprite_xy (loop self))
       \<and> snd (sprite_xy (loop self))
           \<le> max (real_of_int (sprite_h self) / 2)
                  (real_of_int (winfo_height self) - real_of_int (sprite_h self) / 2)
       \<and> (winfo_width self \<le> sprite_w self
            \<longrightarrow> fst (sprite_xy (loop self)) = real_of_int (sprite_w self) / 2)
       \<and> (winfo_height self \<le> sprite_h self
            \<longrightarrow> snd (sprite_xy (loop self)) = real_of_int (sprite_h self) / 2)"
  unfolding sprite_xy_loop [OF assms] fst_clamp_to_canvas snd_clamp_to_canvas
  by (intro conjI impI clamp1_lower clamp1_upper clamp1_pinned) simp_all

text \<open>
  An 80 by 50 canvas under a 100 by 60 sprite: the first tick pins the position to (50, 30).
  The scenario state on its 900 by 600 canvas: the tick keeps x in [50, 850] and y in
  [30, 570].
\<close>

theorem loop_position_clamped_witness:
  "running (chaser_init 100 60 80 50) \<and> sprite_exists (chaser_init 100 60 80 50)
   \<and> winfo_width (chaser_init 100 60 80 50) \<le> sprite_w (chaser_init 100 60 80 50)
   \<and> winfo_height (chaser_init 100 60 80 50) \<le> sprite_h (chaser_init 100 60 80 50)
   \<and> fst (sprite_xy (loop (chaser_init 100 60 80 50))) = 50
   \<and> snd (sprite_xy (loop (chaser_init 100 60 80 50))) = 30
   \<and> running scenario \<and> sprite_exists scenario
   \<and> 50 \<le> fst (sprite_xy (loop scenario)) \<and> fst (sprite_xy (loop scenario)) \<le> 850
   \<and> 30 \<le> snd (sprite_xy (loop scenario)) \<and> snd (sprite_xy (loop scenario)) \<le> 570"
  using loop_position_clamped [of "chaser_init 100 60 80 50"] loop_position_clamped [of scenario]
  by (simp add: chaser_init_fields scenario_fields)

subsection \<open>Resizing reclamps\<close>

text \<open>
  Claim C8. The resize handler replaces the sprite's position \<open>(x, y)\<close> by
  \<open>(nx, ny)\<close>, its clamp into the bounds of the size the canvas now reports, and changes
  nothing else: \<open>nx\<close> lies between the half width and the larger of the half width and the
  canvas width less the half width; a coordinate already within these bounds is kept, one
  below them moves to the lower bound and one above them to the upper bound, and the same
  for \<open>ny\<close>; a position within the clamp range leaves the state as it is. With the sprite
  at (10, 10), a 100 by 60 sprite (half size (50, 30)) and a 60 by 50 canvas, the position
  after the handler is (50, 30). On a 900 by 600 canvas the handler moves (880, 10) to
  (850, 30) and leaves (450, 300) where it is.
\<close>

theorem on_resize_reclamps:
  assumes "sprite_exists self"
  shows "(let half_w = real_of_int (sprite_w self) / 2;
              half_h = real_of_int (sprite_h self) / 2;
              w = real_of_int (winfo_width self);
              h = real_of_int (winfo_height self);
              (x, y) = sprite_xy self;
              nx = min (max x half_w) (max half_w (w - half_w));
              ny = min (max y half_h) (max half_h (h - half_h))
          in on_resize self = Inr (self\<lparr>sprite_xy := (nx, ny)\<rparr>)
             \<and> half_w \<le> nx \<and> nx \<le> max half_w (w - half_w)
             \<and> half_h \<le> ny \<and> ny \<le> max half_h (h - half_h)
             \<and> (half_w \<le> x \<and> x \<le> max half_w (w - half_w) \<longrightarrow> nx = x)
             \<and> (half_h \<le> y \<and> y \<le> max half_h (h - half_h) \<longrightarrow> ny = y)
             \<and> (x < half_w \<longrightarrow> nx = half_w)
             \<and> (max half_w (w - half_w) < x \<longrightarrow> nx = max half_w (w - half_w))
             \<and> (y < half_h \<longrightarrow> ny = half_h)
             \<and> (max half_h (h - half_h) < y \<longrightarrow> ny = max half_h (h - half_h))
             \<and> (in_clamp_range self x y \<longrightarrow> on_resize self = Inr self))
       \<and> on_resize resize_example = Inr (resize_example\<lparr>sprite_xy := (50, 30)\<rparr>)
       \<and> on_resize ((chaser_init 100 60 900 600)\<lparr>sprite_xy := (880, 10)\<rparr>)
           = Inr ((chaser_init 100 60 900 600)\<lparr>sprite_xy := (850, 30)\<rparr>)
       \<and> on_resize (chaser_init 100 60 900 600) = Inr (chaser_init 100 60 900 600)"
proof (intro conjI)
  let ?c = "clamp_to_canvas self (fst (sprite_xy self)) (snd (sprite_xy self))"
  have r: "on_resize self = Inr (self\<lparr>sprite_xy := ?c\<rparr>)"
  proof (cases "?c = sprite_xy self")
    case True
    with assms show ?thesis by (simp add: on_resize_def Let_def split_beta)
  next
    case False
    with assms show ?thesis by (simp add: on_resize_def Let_def split_beta prod_eq_iff)
  qed
  have k: "in_clamp_range self (fst (sprite_xy self)) (snd (sprite_xy self)) \<Longrightarrow> on_resize self = Inr self"
    by (simp add: r clamp_to_canvas_fixed)
  show "let half_w = real_of_int (sprite_w self) / 2;
              half_h = real_of_int (sprite_h self) / 2;
              w = real_of_int (winfo_width self);
              h = real_of_int (winfo_height self);
              (x, y) = sprite_xy self;
              nx = min (max x half_w) (max half_w (w - half_w));
              ny = min (max y half_h) (max half_h (h - half_h))
          in on_resize self = Inr (self\<lparr>sprite_xy := (nx, ny)\<rparr>)
             \<and> half_w \<le> nx \<and> nx \<le> max half_w (w - half_w)
             \<and> half_h \<le> ny \<and> ny \<le> max half_h (h - half_h)
             \<and> (half_w \<le> x \<and> x \<le> max half_w (w - half_w) \<longrightarrow> nx = x)
             \<and> (half_h \<le> y \<and> y \<le> max half_h (h - half_h) \<longrightarrow> ny = y)
             \<and> (x < half_w \<longrightarrow> nx = half_w)
             \<and> (max half_w (w - half_w) < x \<longrightarrow> nx = max half_w (w - half_w))
             \<and> (y < half_h \<longrightarrow> ny = half_h)
             \<and> (max half_h (h - half_h) < y \<longrightarrow> ny = max half_h (h - half_h))
             \<and> (in_clamp_range self x y \<longrightarrow> on_resize self = Inr self)"
    unfolding Let_def split_beta
  proof (intro conjI impI)
    show "on_resize self =
      Inr (self\<lparr>sprite_xy :=
         (min (max (fst (sprite_xy self)) (real_of_int (sprite_w self) / 2))
            (max (real_of_int (sprite_w self) / 2)
               (real_of_int (winfo_width self) - real_of_int (sprite_w self) / 2)),
          min (max (snd (sprite_xy self)) (real_of_int (sprite_h self) / 2))
            (max (real_of_int (sprite_h self) / 2)
               (real_of_int (winfo_height self) - real_of_int (sprite_h self) / 2)))\<rparr>)"
      by (simp add: r clamp_to_canvas_def Let_def)
    show "on_resize self = Inr self"
      if "in_clamp_range self (fst (sprite_xy self)) (snd (sprite_xy self))"
      using that by (rule k)
  qed (erule clamp1_kept clamp1_below clamp1_above | rule clamp1_lower clamp1_upper)+
  show "on_resize resize_example = Inr (resize_example\<lparr>sprite_xy := (50, 30)\<rparr>)"
    by (simp add: on_resize_def resize_example_def chaser_init_def clamp_to_canvas_def)
  show "on_resize ((chaser_init 100 60 900 600)\<lparr>sprite_xy := (880, 10)\<rparr>)
           = Inr ((chaser_init 100 60 900 600)\<lparr>sprite_xy := (850, 30)\<rparr>)"
    by (simp add: on_resize_def chaser_init_def clamp_to_canvas_def)
  show "on_resize (chaser_init 100 60 900 600) = Inr (chaser_init 100 60 900 600)"
    by (simp add: on_resize_def chaser_init_def clamp_to_canvas_def WINDOW_SIZE_def)
qed

text \<open>
  The sprite at (880, 300) on a 900 by 600 canvas moves to (850, 300): x goes to the upper
  bound and y is kept. The example of the claim.
\<close>

theorem on_resize_reclamps_witness:
  "sprite_exists ((chaser_init 100 60 900 600)\<lparr>sprite_xy := (880, 300)\<rparr>)
   \<and> on_resize ((chaser_init 100 60 900 600)\<lparr>sprite_xy := (880, 300)\<rparr>)
       = Inr ((chaser_init 100 60 900 600)\<lparr>sprite_xy := (850, 300)\<rparr>)
   \<and> sprite_exists resize_example
   \<and> sprite_xy resize_example = (10, 10)
   \<and> sprite_w resize_example = 100 \<and> sprite_h resize_example = 60
   \<and> winfo_width resize_example = 60 \<and> winfo_height resize_example = 50
   \<and> on_resize resize_example = Inr (resize_example\<lparr>sprite_xy := (50, 30)\<rparr>)"
proof -
  let ?s = "(chaser_init 100 60 900 600)\<lparr>sprite_xy := (880, 300)\<rparr>"
  have e: "sprite_exists ?s" by (simp add: chaser_init_fields)
  have "on_resize ?s = Inr (?s\<lparr>sprite_xy := (850, 300)\<rparr>)"
    using on_resize_reclamps [OF e] by (simp add: chaser_init_fields Let_def)
  then have a: "on_resize ?s = Inr ((chaser_init 100 60 900 600)\<lparr>sprite_xy := (850, 300)\<rparr>)"
    by simp
  have e2: "sprite_exists resize_example" by (simp add: resize_example_def chaser_init_fields)
  have b: "on_resize resize_example = Inr (resize_example\<lparr>sprite_xy := (50, 30)\<rparr>)"
    using on_resize_reclamps [OF e2] by blast
  have f: "sprite_xy resize_example = (10, 10)"
    "sprite_w resize_example = 100" "sprite_h resize_example = 60"
    "winfo_width resize_example = 60" "winfo_height resize_example = 50"
    by (simp_all add: resize_example_def chaser_init_fields)
  from e a e2 f b show ?thesis by blast
qed

subsection \<open>Hiding the cursor\<close>



subsection \<open>A tick reads no state of earlier ticks\<close>

text \<open>
  Claim C9. Two ticks that pass the guard of \<^verbatim>\<open>loop\<close> and start from the same sprite
  position, the same target and the same canvas size, for the same sprite image (its size is
  fixed by the constructor, like the constants), commit the same position and leave the same
  value in \<^verbatim>\<open>_cursor_hidden\<close>, whatever \<^verbatim>\<open>self.vel\<close>, \<^verbatim>\<open>_cursor_hidden\<close> and the canvas cursor
  were before. \<^verbatim>\<open>self.vel\<close> is neither read nor written by the tick. (The tick sets the
  cursor option of the canvas only when \<^verbatim>\<open>_cursor_hidden\<close> changes; the claim's
  \<open>hide_cursor\<close> is the flag, the value of \<^verbatim>\<open>pointer_over_sprite()\<close> in the tick.)
\<close>

theorem loop_pure_step:
  assumes "running s1" and "sprite_exists s1" and "running s2" and "sprite_exists s2"
    and "sprite_xy s1 = sprite_xy s2" and "target s1 = target s2"
    and "winfo_width s1 = winfo_width s2" and "winfo_height s1 = winfo_height s2"
    and "sprite_w s1 = sprite_w s2" and "sprite_h s1 = sprite_h s2"
  shows "sprite_xy (loop s1) = sprite_xy (loop s2)
       \<and> cursor_hidden (loop s1) = cursor_hidden (loop s2)
       \<and> vel (loop s1) = vel s1 \<and> vel (loop s2) = vel s2"
proof -
  have v: "capped_v s1 = capped_v s2"
    using assms by (simp add: capped_v_def desired_v_def)
  have c: "clamp_to_canvas s1 = clamp_to_canvas s2"
    using assms by (simp add: clamp_to_canvas_def fun_eq_iff)
  have xy: "sprite_xy (loop s1) = sprite_xy (loop s2)"
    using assms by (simp add: sprite_xy_loop v c)
  have "cursor_hidden (loop s1) = cursor_hidden (loop s2)"
    using assms by (simp add: cursor_hidden_loop pointer_over_sprite_box xy)
  with xy show ?thesis by (simp add: loop_frame)
qed

text \<open>Two states that differ in \<^verbatim>\<open>self.vel\<close> and \<^verbatim>\<open>_cursor_hidden\<close> only.\<close>

theorem loop_pure_step_witness:
  "vel (chaser_init 100 60 900 600) \<noteq> vel ((chaser_init 100 60 900 600)\<lparr>vel := (5, - 3), cursor_hidden := True\<rparr>)
   \<and> cursor_hidden (chaser_init 100 60 900 600)
       \<noteq> cursor_hidden ((chaser_init 100 60 900 600)\<lparr>vel := (5, - 3), cursor_hidden := True\<rparr>)
   \<and> sprite_xy (loop (chaser_init 100 60 900 600))
       = sprite_xy (loop ((chaser_init 100 60 900 600)\<lparr>vel := (5, - 3), cursor_hidden := True\<rparr>))
   \<and> cursor_hidden (loop (chaser_init 100 60 900 600))
       = cursor_hidden (loop ((chaser_init 100 60 900 600)\<lparr>vel := (5, - 3), cursor_hidden := True\<rparr>))"
  using loop_pure_step [of "chaser_init 100 60 900 600"
      "(chaser_init 100 60 900 600)\<lparr>vel := (5, - 3), cursor_hidden := True\<rparr>"]
  by (simp add: chaser_init_fields)

subsection \<open>The speed cap\<close>

text \<open>
  Claim C3, amended. In a tick whose desired velocity \<open>(dx * easing, dy * easing)\<close> has a
  norm \<open>speed\<close> above \<^verbatim>\<open>MAX_SPEED\<close>, both components are multiplied by
  \<open>s = MAX_SPEED / max speed 1e-6\<close>, which is \<open>MAX_SPEED / speed\<close> and positive.
  \<^item> In exact arithmetic the result has norm \<^verbatim>\<open>MAX_SPEED\<close> and is the desired velocity times
    the positive factor \<open>MAX_SPEED / speed\<close>: the same direction.
  \<^item> In double arithmetic \<open>s\<close> is the rounded quotient, each component of the result is
    its desired component times \<open>s\<close>, rounded (a relative error of at most \<open>1 / 2 ^ 53\<close>), and
    the norm of the result differs from \<^verbatim>\<open>MAX_SPEED\<close> by at most \<open>72 / 2 ^ 53\<close>, about
    \<open>8e-15\<close>.
\<close>

theorem capped_v_when_limited:
  "(real_of_int MAX_SPEED < hypot (fst (desired_v self)) (snd (desired_v self)) \<longrightarrow>
      capped_v self =
        (fst (desired_v self)
           * (real_of_int MAX_SPEED / max (hypot (fst (desired_v self)) (snd (desired_v self))) (1 / 10 ^ 6)),
         snd (desired_v self)
           * (real_of_int MAX_SPEED / max (hypot (fst (desired_v self)) (snd (desired_v self))) (1 / 10 ^ 6)))
      \<and> hypot (fst (capped_v self)) (snd (capped_v self)) = real_of_int MAX_SPEED
      \<and> 0 < real_of_int MAX_SPEED / hypot (fst (desired_v self)) (snd (desired_v self))
      \<and> fst (capped_v self)
          = real_of_int MAX_SPEED / hypot (fst (desired_v self)) (snd (desired_v self)) * fst (desired_v self)
      \<and> snd (capped_v self)
          = real_of_int MAX_SPEED / hypot (fst (desired_v self)) (snd (desired_v self)) * snd (desired_v self))
   \<and> (real_of_int MAX_SPEED < hypot_fl (fst (desired_v_fl self)) (snd (desired_v_fl self)) \<longrightarrow>
      (let speed = hypot_fl (fst (desired_v_fl self)) (snd (desired_v_fl self));
           s = fl (fl (real_of_int MAX_SPEED) / max speed (fl (1 / 10 ^ 6)))
       in capped_v_fl self = (fl (fst (desired_v_fl self) * s), fl (snd (desired_v_fl self) * s))
          \<and> s = fl (real_of_int MAX_SPEED / speed)
          \<and> 0 < s
          \<and> \<bar>fst (capped_v_fl self) - fst (desired_v_fl self) * s\<bar>
               \<le> \<bar>fst (desired_v_fl self) * s\<bar> / 2 ^ 53
          \<and> \<bar>snd (capped_v_fl self) - snd (desired_v_fl self) * s\<bar>
               \<le> \<bar>snd (desired_v_fl self) * s\<bar> / 2 ^ 53
          \<and> \<bar>hypot (fst (capped_v_fl self)) (snd (capped_v_fl self)) - real_of_int MAX_SPEED\<bar>
               \<le> 72 / 2 ^ 53))"
proof (intro conjI impI)
  assume lim: "real_of_int MAX_SPEED < hypot (fst (desired_v self)) (snd (desired_v self))"
  let ?speed = "hypot (fst (desired_v self)) (snd (desired_v self))"
  have pos: "0 < ?speed"
    using lim by (simp add: MAX_SPEED_def)
  show "capped_v self =
           (fst (desired_v self) * (real_of_int MAX_SPEED / max ?speed (1 / 10 ^ 6)),
            snd (desired_v self) * (real_of_int MAX_SPEED / max ?speed (1 / 10 ^ 6)))"
    using lim by (simp add: capped_v_def Let_def split_beta)
  show "hypot (fst (capped_v self)) (snd (capped_v self)) = real_of_int MAX_SPEED"
    using lim by (rule hypot_capped_v_limited)
  show "0 < real_of_int MAX_SPEED / ?speed"
    using pos by (simp add: MAX_SPEED_def)
  show "fst (capped_v self) = real_of_int MAX_SPEED / ?speed * fst (desired_v self)"
    by (simp add: capped_v_limited [OF lim])
  show "snd (capped_v self) = real_of_int MAX_SPEED / ?speed * snd (desired_v self)"
    by (simp add: capped_v_limited [OF lim])
next
  assume lim: "real_of_int MAX_SPEED < hypot_fl (fst (desired_v_fl self)) (snd (desired_v_fl self))"
  let ?speed = "hypot_fl (fst (desired_v_fl self)) (snd (desired_v_fl self))"
  let ?s = "fl (fl (real_of_int MAX_SPEED) / max ?speed (fl (1 / 10 ^ 6)))"
  have m: "max ?speed (fl (1 / 10 ^ 6)) = ?speed"
    using lim fl_epsilon_small by (simp add: MAX_SPEED_def)
  have s: "?s = fl (real_of_int MAX_SPEED / ?speed)"
    by (simp only: m fl_MAX_SPEED)
  have c: "capped_v_fl self = (fl (fst (desired_v_fl self) * ?s), fl (snd (desired_v_fl self) * ?s))"
    unfolding s by (rule capped_v_fl_limited [OF lim])
  have "0 < real_of_int MAX_SPEED / ?speed"
    using lim by (simp add: MAX_SPEED_def)
  then have spos: "0 < ?s" unfolding s by (rule fl_pos)
  have ex: "\<bar>fst (capped_v_fl self) - fst (desired_v_fl self) * ?s\<bar>
               \<le> \<bar>fst (desired_v_fl self) * ?s\<bar> / 2 ^ 53"
    unfolding c fst_conv by (rule fl_error)
  have ey: "\<bar>snd (capped_v_fl self) - snd (desired_v_fl self) * ?s\<bar>
               \<le> \<bar>snd (desired_v_fl self) * ?s\<bar> / 2 ^ 53"
    unfolding c snd_conv by (rule fl_error)
  have n: "\<bar>hypot (fst (capped_v_fl self)) (snd (capped_v_fl self)) - real_of_int MAX_SPEED\<bar>
               \<le> 72 / 2 ^ 53"
    using lim by (rule hypot_capped_v_fl_limited)
  show "let speed = hypot_fl (fst (desired_v_fl self)) (snd (desired_v_fl self));
           s = fl (fl (real_of_int MAX_SPEED) / max speed (fl (1 / 10 ^ 6)))
       in capped_v_fl self = (fl (fst (desired_v_fl self) * s), fl (snd (desired_v_fl self) * s))
          \<and> s = fl (real_of_int MAX_SPEED / speed)
          \<and> 0 < s
          \<and> \<bar>fst (capped_v_fl self) - fst (desired_v_fl self) * s\<bar>
               \<le> \<bar>fst (desired_v_fl self) * s\<bar> / 2 ^ 53
          \<and> \<bar>snd (capped_v_fl self) - snd (desired_v_fl self) * s\<bar>
               \<le> \<bar>snd (desired_v_fl self) * s\<bar> / 2 ^ 53
          \<and> \<bar>hypot (fst (capped_v_fl self)) (snd (capped_v_fl self)) - real_of_int MAX_SPEED\<bar>
               \<le> 72 / 2 ^ 53"
    unfolding Let_def using c s spos ex ey n by (intro conjI)
qed

text \<open>
  Sprite at (50, 30), target (450, 330): the desired velocity (60, 45) has norm 75 in both
  readings.
\<close>

theorem capped_v_when_limited_witness:
  "real_of_int MAX_SPEED < hypot (fst (desired_v limited_example)) (snd (desired_v limited_example))
   \<and> hypot (fst (capped_v limited_example)) (snd (capped_v limited_example)) = 18
   \<and> real_of_int MAX_SPEED
       < hypot_fl (fst (desired_v_fl limited_example)) (snd (desired_v_fl limited_example))
   \<and> \<bar>hypot (fst (capped_v_fl limited_example)) (snd (capped_v_fl limited_example)) - 18\<bar>
       \<le> 72 / 2 ^ 53"
proof -
  note t = capped_v_when_limited [of limited_example]
  from t limited_example_limited(1)
  have "hypot (fst (capped_v limited_example)) (snd (capped_v limited_example)) = real_of_int MAX_SPEED"
    by blast
  then have a: "hypot (fst (capped_v limited_example)) (snd (capped_v limited_example)) = 18"
    by (simp add: MAX_SPEED_def)
  from t limited_example_limited(2)
  have "\<bar>hypot (fst (capped_v_fl limited_example)) (snd (capped_v_fl limited_example))
          - real_of_int MAX_SPEED\<bar> \<le> 72 / 2 ^ 53"
    unfolding Let_def by blast
  then have b: "\<bar>hypot (fst (capped_v_fl limited_example)) (snd (capped_v_fl limited_example)) - 18\<bar>
       \<le> 72 / 2 ^ 53"
    by (simp only: MAX_SPEED_def of_int_numeral)
  from limited_example_limited a b show ?thesis by blast
qed

text \<open>
  The claim as stated, with a norm of exactly \<^verbatim>\<open>MAX_SPEED\<close>, fails in double arithmetic on
  that state: \<open>s\<close> is the double next to 0.24, the result is
  (14.399999999999999, 10.799999999999999), and its norm is not 18.
\<close>

theorem capped_v_counterexample:
  "sprite_xy limited_example = (50, 30) \<and> target limited_example = (450, 330)
   \<and> desired_v_fl limited_example = (60, 45)
   \<and> hypot_fl 60 45 = 75
   \<and> real_of_int MAX_SPEED
       < hypot_fl (fst (desired_v_fl limited_example)) (snd (desired_v_fl limited_example))
   \<and> capped_v_fl limited_example = (2026619832316723 / 2 ^ 47, 6079859496950169 / 2 ^ 49)
   \<and> hypot (fst (capped_v_fl limited_example)) (snd (capped_v_fl limited_example))
       \<noteq> real_of_int MAX_SPEED"
proof -
  have f: "sprite_xy limited_example = (50, 30)" "target limited_example = (450, 330)"
    by (simp_all add: limited_example_def)
  have h: "hypot_fl 60 45 = 75"
    by (simp add: hypot_fl_def hypot_60_45 fl_small_ints)
  have "hypot (2026619832316723 / 2 ^ 47) (6079859496950169 / 2 ^ 49) \<noteq> 18"
  proof
    assume "hypot (2026619832316723 / 2 ^ 47) (6079859496950169 / 2 ^ 49) = 18"
    then have "(hypot (2026619832316723 / 2 ^ 47) (6079859496950169 / 2 ^ 49))\<^sup>2 = 18\<^sup>2"
      by simp
    then have "(2026619832316723 / 2 ^ 47 :: real)\<^sup>2 + (6079859496950169 / 2 ^ 49)\<^sup>2 = 18\<^sup>2"
      by (simp only: hypot_sq)
    then show False by (simp add: power2_eq_square)
  qed
  then have n: "hypot (fst (capped_v_fl limited_example)) (snd (capped_v_fl limited_example))
       \<noteq> real_of_int MAX_SPEED"
    by (simp only: limited_example_capped_v_fl fst_conv snd_conv MAX_SPEED_def of_int_numeral)
         simp
  from f limited_example_desired_v_fl h limited_example_limited(2) limited_example_capped_v_fl n
  show ?thesis by blast
qed

subsection \<open>The length of a step\<close>

text \<open>
  Claim C2, amended. In every tick that passes the guard of \<^verbatim>\<open>loop\<close>, the norm of the
  velocity after the cap is at most \<^verbatim>\<open>MAX_SPEED\<close>, within floating tolerance: at most
  \<^verbatim>\<open>MAX_SPEED\<close> in exact arithmetic and at most \<open>MAX_SPEED + 72 / 2 ^ 53\<close> in double
  arithmetic. When the position before the tick is within the clamp range, the norm of the
  displacement of the tick is at most \<^verbatim>\<open>MAX_SPEED\<close>, within floating tolerance: at most
  \<^verbatim>\<open>MAX_SPEED\<close> in exact arithmetic and at most \<open>MAX_SPEED + (91 + r) / 2 ^ 53\<close> in double
  arithmetic, where \<open>r\<close> is the norm of the old position. A position outside the clamp range
  is moved into it by \<^verbatim>\<open>clamp_to_canvas\<close>, however far that is.
\<close>

theorem loop_speed_cap:
  assumes "running self" and "sprite_exists self"
  shows "hypot (fst (capped_v self)) (snd (capped_v self)) \<le> real_of_int MAX_SPEED
       \<and> (in_clamp_range self (fst (sprite_xy self)) (snd (sprite_xy self))
            \<longrightarrow> hypot (fst (sprite_xy (loop self)) - fst (sprite_xy self))
                      (snd (sprite_xy (loop self)) - snd (sprite_xy self))
                  \<le> real_of_int MAX_SPEED)
       \<and> hypot (fst (capped_v_fl self)) (snd (capped_v_fl self))
            \<le> real_of_int MAX_SPEED + 72 / 2 ^ 53
       \<and> (in_clamp_range_fl self (fst (sprite_xy self)) (snd (sprite_xy self))
            \<longrightarrow> hypot (fst (sprite_xy (loop_fl self)) - fst (sprite_xy self))
                      (snd (sprite_xy (loop_fl self)) - snd (sprite_xy self))
                  \<le> real_of_int MAX_SPEED
                      + (91 + hypot (fst (sprite_xy self)) (snd (sprite_xy self))) / 2 ^ 53)"
proof (intro conjI impI)
  show "hypot (fst (capped_v self)) (snd (capped_v self)) \<le> real_of_int MAX_SPEED"
    by (rule hypot_capped_v_le)
  show "hypot (fst (capped_v_fl self)) (snd (capped_v_fl self))
            \<le> real_of_int MAX_SPEED + 72 / 2 ^ 53"
    by (rule hypot_capped_v_fl_le)
next
  assume "in_clamp_range self (fst (sprite_xy self)) (snd (sprite_xy self))"
  with assms
  have "hypot (fst (sprite_xy (loop self)) - fst (sprite_xy self))
              (snd (sprite_xy (loop self)) - snd (sprite_xy self))
          \<le> hypot (fst (capped_v self)) (snd (capped_v self))"
    by (rule loop_displacement_le_velocity)
  also have "\<dots> \<le> real_of_int MAX_SPEED"
    by (rule hypot_capped_v_le)
  finally show "hypot (fst (sprite_xy (loop self)) - fst (sprite_xy self))
                      (snd (sprite_xy (loop self)) - snd (sprite_xy self))
                  \<le> real_of_int MAX_SPEED" .
next
  assume "in_clamp_range_fl self (fst (sprite_xy self)) (snd (sprite_xy self))"
  with assms
  show "hypot (fst (sprite_xy (loop_fl self)) - fst (sprite_xy self))
              (snd (sprite_xy (loop_fl self)) - snd (sprite_xy self))
          \<le> real_of_int MAX_SPEED
              + (91 + hypot (fst (sprite_xy self)) (snd (sprite_xy self))) / 2 ^ 53"
    by (rule loop_fl_displacement)
qed

text \<open>The scenario state: the sprite at (450, 300) is within the clamp range.\<close>

theorem loop_speed_cap_witness:
  "running scenario \<and> sprite_exists scenario
   \<and> sprite_xy scenario = (450, 300)
   \<and> in_clamp_range scenario 450 300
   \<and> hypot (fst (sprite_xy (loop scenario)) - 450) (snd (sprite_xy (loop scenario)) - 300) \<le> 18
   \<and> in_clamp_range_fl scenario 450 300
   \<and> hypot (fst (sprite_xy (loop_fl scenario)) - 450) (snd (sprite_xy (loop_fl scenario)) - 300)
       \<le> 18 + (91 + hypot 450 300) / 2 ^ 53"
proof -
  have r: "in_clamp_range scenario 450 300"
    by (simp add: in_clamp_range_def scenario_fields)
  note t = loop_speed_cap [OF scenario_fields(7,8)]
  from t r
  have "hypot (fst (sprite_xy (loop scenario)) - fst (sprite_xy scenario))
              (snd (sprite_xy (loop scenario)) - snd (sprite_xy scenario)) \<le> real_of_int MAX_SPEED"
    by (simp add: scenario_fields)
  then have a: "hypot (fst (sprite_xy (loop scenario)) - 450) (snd (sprite_xy (loop scenario)) - 300) \<le> 18"
    by (simp add: scenario_fields MAX_SPEED_def)
  from t scenario_in_clamp_range_fl
  have "hypot (fst (sprite_xy (loop_fl scenario)) - fst (sprite_xy scenario))
              (snd (sprite_xy (loop_fl scenario)) - snd (sprite_xy scenario))
          \<le> real_of_int MAX_SPEED
              + (91 + hypot (fst (sprite_xy scenario)) (snd (sprite_xy scenario))) / 2 ^ 53"
    by (simp add: scenario_fields)
  then have b: "hypot (fst (sprite_xy (loop_fl scenario)) - 450) (snd (sprite_xy (loop_fl scenario)) - 300)
       \<le> 18 + (91 + hypot 450 300) / 2 ^ 53"
    by (simp only: scenario_fields fst_conv snd_conv MAX_SPEED_def of_int_numeral)
  from scenario_fields(7,8,1) r a scenario_in_clamp_range_fl b show ?thesis by blast
qed

text \<open>
  The claim as stated fails in the first tick, which \<^verbatim>\<open>__init__\<close> runs before the canvas
  is laid out: Tk reports a width and a height of 1 for such a widget. The sprite, created
  at (450, 300) with the target on it, is clamped to (50, 30): a displacement of
  (-400, -270), longer than 18 by more than 400 in either reading.
\<close>

theorem loop_speed_cap_counterexample:
  "running (chaser_init 100 60 1 1) \<and> sprite_exists (chaser_init 100 60 1 1)
   \<and> sprite_xy (chaser_init 100 60 1 1) = (450, 300)
   \<and> sprite_xy (loop (chaser_init 100 60 1 1)) = (50, 30)
   \<and> real_of_int MAX_SPEED
       < hypot (fst (sprite_xy (loop (chaser_init 100 60 1 1))) - fst (sprite_xy (chaser_init 100 60 1 1)))
               (snd (sprite_xy (loop (chaser_init 100 60 1 1))) - snd (sprite_xy (chaser_init 100 60 1 1)))
   \<and> sprite_xy (loop_fl (chaser_init 100 60 1 1)) = (50, 30)
   \<and> real_of_int MAX_SPEED + 400
       < hypot (fst (sprite_xy (loop_fl (chaser_init 100 60 1 1))) - fst (sprite_xy (chaser_init 100 60 1 1)))
               (snd (sprite_xy (loop_fl (chaser_init 100 60 1 1))) - snd (sprite_xy (chaser_init 100 60 1 1)))"
proof -
  have xy: "sprite_xy (loop (chaser_init 100 60 1 1)) = (50, 30)"
    by (simp add: chaser_init_loop_xy clamp_to_canvas_def chaser_init_fields)
  have xy_fl: "sprite_xy (loop_fl (chaser_init 100 60 1 1)) = (50, 30)"
    by (simp add: chaser_init_loop_fl_xy clamp_to_canvas_fl_def chaser_init_fields
        fl_numeral fl_1 fl_minus)
  have "(418::real) < sqrt ((- 400)\<^sup>2 + (- 270)\<^sup>2)"
    by (rule real_less_rsqrt) simp
  then show ?thesis
    by (simp add: xy xy_fl chaser_init_fields hypot_def MAX_SPEED_def)
qed

subsection \<open>At rest\<close>

text \<open>
  Claim C6, amended. If the position equals the target and lies within the clamp range, a
  tick that passes the guard of \<^verbatim>\<open>loop\<close> leaves the position (and the target) unchanged.
\<close>

theorem loop_at_rest_fixed:
  assumes "running self" and "sprite_exists self"
    and "sprite_xy self = (real_of_int (fst (target self)), real_of_int (snd (target self)))"
    and "in_clamp_range self (fst (sprite_xy self)) (snd (sprite_xy self))"
  shows "sprite_xy (loop self) = sprite_xy self \<and> target (loop self) = target self"
  using assms by (simp add: loop_at_rest clamp_to_canvas_fixed loop_frame)

text \<open>The first tick on a 900 by 600 canvas: sprite and target at (450, 300).\<close>

theorem loop_at_rest_fixed_witness:
  "running (chaser_init 100 60 900 600) \<and> sprite_exists (chaser_init 100 60 900 600)
   \<and> sprite_xy (chaser_init 100 60 900 600) = (450, 300)
   \<and> target (chaser_init 100 60 900 600) = (450, 300)
   \<and> in_clamp_range (chaser_init 100 60 900 600) 450 300
   \<and> sprite_xy (loop (chaser_init 100 60 900 600)) = (450, 300)"
  using loop_at_rest_fixed [of "chaser_init 100 60 900 600"]
  by (simp add: chaser_init_fields in_clamp_range_def)

text \<open>
  The claim as stated, without the clamp range, fails in the first tick on a canvas that
  reports 1 by 1: position and target are both (450, 300) and the tick moves the sprite of
  a 120 by 80 image to (60, 40).
\<close>

theorem loop_at_rest_counterexample:
  "running (chaser_init 120 80 1 1) \<and> sprite_exists (chaser_init 120 80 1 1)
   \<and> sprite_xy (chaser_init 120 80 1 1) = (450, 300)
   \<and> target (chaser_init 120 80 1 1) = (450, 300)
   \<and> target (loop (chaser_init 120 80 1 1)) = (450, 300)
   \<and> sprite_xy (loop (chaser_init 120 80 1 1)) = (60, 40)
   \<and> sprite_xy (loop (chaser_init 120 80 1 1)) \<noteq> sprite_xy (chaser_init 120 80 1 1)"
  by (simp add: chaser_init_loop_xy clamp_to_canvas_def chaser_init_fields loop_frame)

subsection \<open>Convergence\<close>




subsection \<open>The scenario\<close>

text \<open>
  Claim C4. Canvas 900 by 600, sprite half size (50, 30), easing 0.15, \<^verbatim>\<open>MAX_SPEED\<close> 18,
  position (450, 300), target (0, 0). One tick computes \<open>dx = -450\<close>, \<open>dy = -300\<close> and the
  desired velocity (-67.5, -45), whose norm exceeds 18; the cap scales it to norm 18 in the
  same direction, to \<open>(-54 / sqrt 13, -36 / sqrt 13)\<close>, which is within 0.01 of
  (-14.98, -9.99); the new position is the old one plus that velocity, unchanged by the
  clamp, and within 0.01 of (435.02, 290.01). To three decimals the velocity lies in
  (-14.978, -14.976) by (-9.985, -9.984) and the position in (435.022, 435.024) by
  (290.015, 290.016).
\<close>

theorem scenario_tick:
  "sprite_xy scenario = (450, 300) \<and> target scenario = (0, 0)
   \<and> sprite_w scenario = 100 \<and> sprite_h scenario = 60
   \<and> winfo_width scenario = 900 \<and> winfo_height scenario = 600
   \<and> real_of_int (fst (target scenario)) - fst (sprite_xy scenario) = - 450
   \<and> real_of_int (snd (target scenario)) - snd (sprite_xy scenario) = - 300
   \<and> desired_v scenario = (- 67.5, - 45)
   \<and> real_of_int MAX_SPEED < hypot (fst (desired_v scenario)) (snd (desired_v scenario))
   \<and> hypot (fst (capped_v scenario)) (snd (capped_v scenario)) = 18
   \<and> capped_v scenario = (- (54 / sqrt 13), - (36 / sqrt 13))
   \<and> fst (capped_v scenario) * snd (desired_v scenario) = snd (capped_v scenario) * fst (desired_v scenario)
   \<and> \<bar>fst (capped_v scenario) - (- 14.98)\<bar> < 0.01
   \<and> \<bar>snd (capped_v scenario) - (- 9.99)\<bar> < 0.01
   \<and> - 14.978 < fst (capped_v scenario) \<and> fst (capped_v scenario) < - 14.976
   \<and> - 9.985 < snd (capped_v scenario) \<and> snd (capped_v scenario) < - 9.984
   \<and> sprite_xy (loop scenario) = (450 + fst (capped_v scenario), 300 + snd (capped_v scenario))
   \<and> in_clamp_range scenario (fst (sprite_xy (loop scenario))) (snd (sprite_xy (loop scenario)))
   \<and> \<bar>fst (sprite_xy (loop scenario)) - 435.02\<bar> < 0.01
   \<and> \<bar>snd (sprite_xy (loop scenario)) - 290.01\<bar> < 0.01
   \<and> 435.022 < fst (sprite_xy (loop scenario)) \<and> fst (sprite_xy (loop scenario)) < 435.024
   \<and> 290.015 < snd (sprite_xy (loop scenario)) \<and> snd (sprite_xy (loop scenario)) < 290.016"
proof -
  have mag: "hypot (fst (capped_v scenario)) (snd (capped_v scenario)) = 18"
    using hypot_capped_v_limited [OF scenario_limited] by (simp add: MAX_SPEED_def)
  have rng: "in_clamp_range scenario (fst (sprite_xy (loop scenario))) (snd (sprite_xy (loop scenario)))"
    using scenario_capped_v_bounds by (simp add: scenario_loop_xy in_clamp_range_def scenario_fields)
  have dv: "desired_v scenario = (- 67.5, - 45)"
    by (simp add: scenario_desired_v)
  have cv: "capped_v scenario = (- (54 / sqrt 13), - (36 / sqrt 13))"
    by (rule scenario_capped_v)
  have par: "fst (capped_v scenario) * snd (desired_v scenario)
               = snd (capped_v scenario) * fst (desired_v scenario)"
    by (simp add: scenario_capped_v scenario_desired_v)
  have vb: "\<bar>fst (capped_v scenario) - (- 14.98)\<bar> < 0.01" "\<bar>snd (capped_v scenario) - (- 9.99)\<bar> < 0.01"
    "- 14.978 < fst (capped_v scenario)" "fst (capped_v scenario) < - 14.976"
    "- 9.985 < snd (capped_v scenario)" "snd (capped_v scenario) < - 9.984"
    using scenario_capped_v_bounds by (simp_all add: scenario_capped_v abs_less_iff)
  have xy: "sprite_xy (loop scenario) = (450 + fst (capped_v scenario), 300 + snd (capped_v scenario))"
    by (simp add: scenario_loop_xy scenario_capped_v)
  have pb: "\<bar>fst (sprite_xy (loop scenario)) - 435.02\<bar> < 0.01"
    "\<bar>snd (sprite_xy (loop scenario)) - 290.01\<bar> < 0.01"
    "435.022 < fst (sprite_xy (loop scenario))" "fst (sprite_xy (loop scenario)) < 435.024"
    "290.015 < snd (sprite_xy (loop scenario))" "snd (sprite_xy (loop scenario)) < 290.016"
    using scenario_capped_v_bounds by (simp_all add: scenario_loop_xy abs_less_iff)
  have dxy: "real_of_int (fst (target scenario)) - fst (sprite_xy scenario) = - 450"
    "real_of_int (snd (target scenario)) - snd (sprite_xy scenario) = - 300"
    by (simp_all add: scenario_fields)
  note scenario_fields(1-6) dxy dv scenario_limited mag cv par vb xy rng pb
  then show ?thesis by blast
qed

text \<open>The tick of the scenario passes the guard of \<^verbatim>\<open>loop\<close>.\<close>

theorem scenario_tick_witness:
  "running scenario \<and> sprite_exists scenario
   \<and> sprite_xy (loop scenario) = (450 - 54 / sqrt 13, 300 - 36 / sqrt 13)
   \<and> \<bar>fst (sprite_xy (loop scenario)) - 435.02\<bar> < 0.01
   \<and> \<bar>snd (sprite_xy (loop scenario)) - 290.01\<bar> < 0.01"
proof -
  note t = scenario_tick
  from t have cv: "capped_v scenario = (- (54 / sqrt 13), - (36 / sqrt 13))" by blast
  from t have "sprite_xy (loop scenario) = (450 + fst (capped_v scenario), 300 + snd (capped_v scenario))"
    by blast
  then have xy: "sprite_xy (loop scenario) = (450 - 54 / sqrt 13, 300 - 36 / sqrt 13)"
    by (simp add: cv)
  from t have b: "\<bar>fst (sprite_xy (loop scenario)) - 435.02\<bar> < 0.01"
    "\<bar>snd (sprite_xy (loop scenario)) - 290.01\<bar> < 0.01" by blast+
  from scenario_fields(7,8) xy b show ?thesis by blast
qed

end
